theory Spec2Isabelle
  imports Complex_Main "HOL-Library.AList"
begin

section \<open>Python values shared by the two scripts\<close>

text \<open>
  The repository holds two scripts that run top to bottom:
  \<^verbatim>\<open>src/solve_assignment.py\<close> (stage (a), a PuLP model solved by CBC) and
  \<^verbatim>\<open>src/solve_schedule_cp.py\<close> (stage (b), an OR-Tools CP-SAT model).
  Both read CSV files with pandas, build a model, call the solver and
  write tables.  The solvers are not part of the repository: a stage is
  modelled as a function of the solver's answer (a status and a value for
  every variable), and what the model means is given by a satisfaction
  predicate over such values.

  Hours are real numbers here (the scripts use binary floating point, whose
  rounding is outside this model); minutes of the CP-SAT model are integers.
\<close>

datatype error =
    FileNotFoundError string
  | ValueError string "string list"
  | KeyError string
  | IndexError
  | SystemExit

definition bindE :: "error + 'a \<Rightarrow> ('a \<Rightarrow> error + 'b) \<Rightarrow> error + 'b" where
  "bindE m f = (case m of Inl e \<Rightarrow> Inl e | Inr v \<Rightarrow> f v)"

fun mapE :: "('a \<Rightarrow> error + 'b) \<Rightarrow> 'a list \<Rightarrow> error + 'b list" where
  "mapE f [] = Inr []"
| "mapE f (x # xs) = bindE (f x) (\<lambda>y. bindE (mapE f xs) (\<lambda>ys. Inr (y # ys)))"

subsection \<open>Dictionaries\<close>

text \<open>
  A Python \<^verbatim>\<open>dict\<close> keeps its keys in insertion order and a later store
  to a key replaces the value in place: an association list updated with
  \<^const>\<open>AList.update\<close>.  Reading a key that is absent raises KeyError.
\<close>

type_synonym ('k, 'v) dict = "('k \<times> 'v) list"

definition setitem :: "('k, 'v) dict \<Rightarrow> 'k \<Rightarrow> 'v \<Rightarrow> ('k, 'v) dict" where
  "setitem d k v = AList.update k v d"

definition dict_of :: "('k \<times> 'v) list \<Rightarrow> ('k, 'v) dict" where
  "dict_of kvs = fold (\<lambda>kv d. setitem d (fst kv) (snd kv)) kvs []"

definition show_pair :: "string \<times> string \<Rightarrow> string" where
  "show_pair jt = ''('' @ fst jt @ '', '' @ snd jt @ '')''"

definition getitem :: "('k \<Rightarrow> string) \<Rightarrow> ('k, 'v) dict \<Rightarrow> 'k \<Rightarrow> error + 'v" where
  "getitem shw d k = (case map_of d k of None \<Rightarrow> Inl (KeyError (shw k)) | Some v \<Rightarrow> Inr v)"

subsection \<open>Data frames\<close>

text \<open>
  A pandas DataFrame is modelled by its header (the column names as they
  stand in the frame) and its rows.  A row is a record of the cells of the
  columns the scripts read, typed as the input contract declares them; the
  cell of a column that the header does not list holds no data, and reading
  it raises KeyError, as \<^verbatim>\<open>row['c']\<close> and \<^verbatim>\<open>df['c']\<close> do.
\<close>

record 'r dataframe =
  columns :: "string list"
  rows :: "'r list"

definition cell :: "'r dataframe \<Rightarrow> ('r \<Rightarrow> 'a) \<Rightarrow> string \<Rightarrow> 'r \<Rightarrow> error + 'a" where
  "cell df fld c r = (if c \<in> set (columns df) then Inr (fld r) else Inl (KeyError c))"

definition column :: "'r dataframe \<Rightarrow> ('r \<Rightarrow> 'a) \<Rightarrow> string \<Rightarrow> error + 'a list" where
  "column df fld c = (if c \<in> set (columns df) then Inr (map fld (rows df)) else Inl (KeyError c))"

definition rename :: "(string \<Rightarrow> string) \<Rightarrow> 'r dataframe \<Rightarrow> 'r dataframe" where
  "rename f df = df\<lparr>columns := map f (columns df)\<rparr>"

definition is_space :: "char \<Rightarrow> bool" where
  "is_space ch = (ch \<in> set [CHR '' '', CHR 0x09, CHR 0x0A, CHR 0x0B, CHR 0x0C, CHR 0x0D])"

definition strip :: "string \<Rightarrow> string" where
  "strip s = rev (dropWhile is_space (rev (dropWhile is_space s)))"

text \<open>The three input tables.  Timestamps are microseconds since the epoch.\<close>

record job =
  id_job :: string
  duracion_horas :: real
  skill_requerida :: string
  deadline :: int
  descripcion :: string

record tecnico =
  id_tecnico :: string
  capacidad_diaria_h :: real
  nombre :: string

record habilidad =
  hab_id_job :: string
  hab_id_tecnico :: string
  compatible :: real

text \<open>
  The files a run finds on disk: \<open>None\<close> is a file that does not exist.
  A row of \<^verbatim>\<open>assignment_results.csv\<close>, which stage (b) reads under column
  names it chooses at run time, maps a column name to the identifier in it.
\<close>

record archivos =
  jobs_clean :: "job dataframe option"
  tecnicos_clean :: "tecnico dataframe option"
  habilidades_clean :: "habilidad dataframe option"
  assignment_results :: "(string \<Rightarrow> string) dataframe option"

section \<open>Stage (a): solve_assignment.py\<close>

subsection \<open>Loading and validating (lines 16 to 52)\<close>

record tablas =
  jobs :: "job dataframe"
  tecnicos :: "tecnico dataframe"
  habilidades :: "habilidad dataframe"

definition missing :: "string list \<Rightarrow> 'r dataframe \<Rightarrow> string list" where
  "missing cols df = filter (\<lambda>c. c \<notin> set (columns df)) cols"

definition validar_columnas :: "tablas \<Rightarrow> error + tablas" where
  "validar_columnas tb =
     (if missing [''id_job'', ''duracion_horas'', ''skill_requerida''] (jobs tb) \<noteq> []
      then Inl (ValueError ''jobs''
                 (missing [''id_job'', ''duracion_horas'', ''skill_requerida''] (jobs tb)))
      else if missing [''id_tecnico'', ''capacidad_diaria_h''] (tecnicos tb) \<noteq> []
      then Inl (ValueError ''tecnicos''
                 (missing [''id_tecnico'', ''capacidad_diaria_h''] (tecnicos tb)))
      else if missing [''id_job'', ''id_tecnico'', ''compatible''] (habilidades tb) \<noteq> []
      then Inl (ValueError ''habilidades''
                 (missing [''id_job'', ''id_tecnico'', ''compatible''] (habilidades tb)))
      else Inr tb)"

definition cargar_datos :: "archivos \<Rightarrow> error + tablas" where
  "cargar_datos fs =
     (case jobs_clean fs of
        None \<Rightarrow> Inl (FileNotFoundError ''jobs'')
      | Some jb \<Rightarrow>
     (case tecnicos_clean fs of
        None \<Rightarrow> Inl (FileNotFoundError ''tecnicos'')
      | Some tc \<Rightarrow>
     (case habilidades_clean fs of
        None \<Rightarrow> Inl (FileNotFoundError ''habilidades'')
      | Some hb \<Rightarrow>
          validar_columnas
            \<lparr>jobs = rename strip jb,
             tecnicos = rename (\<lambda>c. if c = ''Id_tecnico'' then ''id_tecnico'' else c)
                          (rename strip tc),
             habilidades = rename strip hb\<rparr>)))"

subsection \<open>Parameters (lines 61 to 68)\<close>

text \<open>
  \<open>par_J\<close>, \<open>par_T\<close>, \<open>par_p\<close>, \<open>par_H\<close> and \<open>par_q\<close> are the script's
  \<^verbatim>\<open>J\<close>, \<^verbatim>\<open>T\<close>, \<^verbatim>\<open>p\<close>, \<^verbatim>\<open>H\<close> and \<^verbatim>\<open>q\<close>.
\<close>

record parametros =
  par_J :: "string list"
  par_T :: "string list"
  par_p :: "(string, real) dict"
  par_H :: "(string, real) dict"
  par_q :: "(string \<times> string, real) dict"

definition preparar_parametros :: "tablas \<Rightarrow> error + parametros" where
  "preparar_parametros tb =
     bindE (column (jobs tb) id_job ''id_job'') (\<lambda>js.
     bindE (column (tecnicos tb) id_tecnico ''id_tecnico'') (\<lambda>ts.
     bindE (column (jobs tb) duracion_horas ''duracion_horas'') (\<lambda>ds.
     bindE (column (tecnicos tb) (\<lambda>r. capacidad_diaria_h r * 7) ''capacidad_diaria_h'') (\<lambda>hs.
     bindE (mapE (\<lambda>r.
              bindE (cell (habilidades tb) hab_id_job ''id_job'' r) (\<lambda>j.
              bindE (cell (habilidades tb) hab_id_tecnico ''id_tecnico'' r) (\<lambda>t.
              bindE (cell (habilidades tb) compatible ''compatible'' r) (\<lambda>c.
              Inr ((j, t), c))))) (rows (habilidades tb))) (\<lambda>qs.
     Inr \<lparr>par_J = js, par_T = ts, par_p = dict_of (zip js ds),
          par_H = dict_of (zip ts hs), par_q = dict_of qs\<rparr>)))))"

subsection \<open>The PuLP model (lines 75 to 102)\<close>

datatype lp_var = Var_x string string | Var_L

datatype lin_expr = LpAffineExpression "(real \<times> lp_var) list" real

datatype sense = LpConstraintLE | LpConstraintEQ | LpConstraintGE

datatype lp_constraint = LpConstraint string lin_expr sense lin_expr

record lp_problem =
  binary_vars :: "lp_var list"
  continuous_vars :: "(lp_var \<times> real) list"
  objective :: lin_expr
  constraints :: "lp_constraint list"

definition lpSum :: "(real \<times> lp_var) list \<Rightarrow> lin_expr" where
  "lpSum ts = LpAffineExpression ts 0"

definition of_var :: "lp_var \<Rightarrow> lin_expr" where
  "of_var v = LpAffineExpression [(1, v)] 0"

definition of_const :: "real \<Rightarrow> lin_expr" where
  "of_const c = LpAffineExpression [] c"

definition x_dict :: "string list \<Rightarrow> string list \<Rightarrow> (string \<times> string, lp_var) dict" where
  "x_dict js ts = dict_of (concat (map (\<lambda>j. map (\<lambda>t. ((j, t), Var_x j t)) ts) js))"

definition asignacion_unica ::
  "(string \<times> string, lp_var) dict \<Rightarrow> string list \<Rightarrow> string \<Rightarrow> error + lp_constraint" where
  "asignacion_unica x ts j =
     bindE (mapE (\<lambda>t. bindE (getitem show_pair x (j, t)) (\<lambda>v. Inr (1, v))) ts) (\<lambda>terms.
     Inr (LpConstraint (''Asignacion_Unica_'' @ j) (lpSum terms) LpConstraintEQ (of_const 1)))"

definition compatibilidad ::
  "(string \<times> string, lp_var) dict \<Rightarrow> (string \<times> string) \<times> real \<Rightarrow> error + lp_constraint" where
  "compatibilidad x entry =
     bindE (getitem show_pair x (fst entry)) (\<lambda>v.
     Inr (LpConstraint (''Compatibilidad_'' @ fst (fst entry) @ ''_'' @ snd (fst entry))
            (of_var v) LpConstraintLE (of_const (snd entry))))"

definition carga_expr ::
  "(string \<times> string, lp_var) dict \<Rightarrow> (string, real) dict \<Rightarrow> string list \<Rightarrow> string
     \<Rightarrow> error + lin_expr" where
  "carga_expr x p js t =
     bindE (mapE (\<lambda>j. bindE (getitem id p j) (\<lambda>pj.
                       bindE (getitem show_pair x (j, t)) (\<lambda>v. Inr (pj, v)))) js) (\<lambda>terms.
     Inr (lpSum terms))"

definition balance_carga ::
  "(string \<times> string, lp_var) dict \<Rightarrow> (string, real) dict \<Rightarrow> string list \<Rightarrow> string
     \<Rightarrow> error + lp_constraint" where
  "balance_carga x p js t =
     bindE (carga_expr x p js t) (\<lambda>e.
     Inr (LpConstraint (''Balance_Carga_'' @ t) e LpConstraintLE (of_var Var_L)))"

definition capacidad ::
  "(string \<times> string, lp_var) dict \<Rightarrow> (string, real) dict \<Rightarrow> (string, real) dict
     \<Rightarrow> string list \<Rightarrow> string \<Rightarrow> error + lp_constraint" where
  "capacidad x p h js t =
     bindE (carga_expr x p js t) (\<lambda>e.
     bindE (getitem id h t) (\<lambda>ht.
     Inr (LpConstraint (''Capacidad_'' @ t) e LpConstraintLE (of_const ht))))"

definition crear_modelo :: "parametros \<Rightarrow> error + lp_problem" where
  "crear_modelo par =
     (let x = x_dict (par_J par) (par_T par) in
      bindE (mapE (asignacion_unica x (par_T par)) (par_J par)) (\<lambda>c1.
      bindE (mapE (compatibilidad x) (par_q par)) (\<lambda>c2.
      bindE (mapE (balance_carga x (par_p par) (par_J par)) (par_T par)) (\<lambda>c3.
      bindE (mapE (capacidad x (par_p par) (par_H par) (par_J par)) (par_T par)) (\<lambda>c4.
      Inr \<lparr>binary_vars = map snd x, continuous_vars = [(Var_L, 0)],
           objective = of_var Var_L, constraints = c1 @ c2 @ c3 @ c4\<rparr>)))))"

subsection \<open>What a solver's values mean for the model\<close>

fun expr_value :: "(lp_var \<Rightarrow> real) \<Rightarrow> lin_expr \<Rightarrow> real" where
  "expr_value val (LpAffineExpression ts c) = sum_list (map (\<lambda>av. fst av * val (snd av)) ts) + c"

fun holds :: "(lp_var \<Rightarrow> real) \<Rightarrow> lp_constraint \<Rightarrow> bool" where
  "holds val (LpConstraint n l LpConstraintLE r) = (expr_value val l \<le> expr_value val r)"
| "holds val (LpConstraint n l LpConstraintEQ r) = (expr_value val l = expr_value val r)"
| "holds val (LpConstraint n l LpConstraintGE r) = (expr_value val l \<ge> expr_value val r)"

definition lp_feasible :: "lp_problem \<Rightarrow> (lp_var \<Rightarrow> real) \<Rightarrow> bool" where
  "lp_feasible prob val =
     (list_all (\<lambda>v. val v = 0 \<or> val v = 1) (binary_vars prob) \<and>
      list_all (\<lambda>vl. snd vl \<le> val (fst vl)) (continuous_vars prob) \<and>
      list_all (holds val) (constraints prob))"

subsection \<open>Reading the solution and writing the tables (lines 107 to 186)\<close>

datatype lp_status =
  LpStatusNotSolved | LpStatusOptimal | LpStatusInfeasible | LpStatusUnbounded | LpStatusUndefined

fun LpStatus :: "lp_status \<Rightarrow> string" where
  "LpStatus LpStatusNotSolved = ''Not Solved''"
| "LpStatus LpStatusOptimal = ''Optimal''"
| "LpStatus LpStatusInfeasible = ''Infeasible''"
| "LpStatus LpStatusUnbounded = ''Unbounded''"
| "LpStatus LpStatusUndefined = ''Undefined''"

record resultado =
  job_id :: string
  tecnico_id :: string
  res_duracion_horas :: real
  res_skill_requerida :: string

text \<open>
  \<^verbatim>\<open>jobs.loc[jobs['id_job'] == j, 'skill_requerida'].values[0]\<close>: the skill
  of the first row with that identifier; IndexError when there is none.
\<close>

definition skill_de :: "job dataframe \<Rightarrow> string \<Rightarrow> error + string" where
  "skill_de jb j =
     bindE (column jb id_job ''id_job'') (\<lambda>ids.
     bindE (column jb skill_requerida ''skill_requerida'') (\<lambda>skills.
     (case filter (\<lambda>r. id_job r = j) (rows jb) of
        [] \<Rightarrow> Inl IndexError
      | r # _ \<Rightarrow> Inr (skill_requerida r))))"

text \<open>
  The inner loop \<^verbatim>\<open>for j in J\<close> of lines 126 to 135, for one technician:
  it carries the list \<^verbatim>\<open>resultados\<close> and \<^verbatim>\<open>carga_actual\<close>.
\<close>

fun asignar_jobs ::
  "job dataframe \<Rightarrow> (string \<times> string, lp_var) dict \<Rightarrow> (string, real) dict
     \<Rightarrow> (lp_var \<Rightarrow> real) \<Rightarrow> string \<Rightarrow> string list \<Rightarrow> resultado list \<times> real
     \<Rightarrow> error + resultado list \<times> real" where
  "asignar_jobs jb x p val t [] acc = Inr acc"
| "asignar_jobs jb x p val t (j # js) acc =
     bindE (getitem show_pair x (j, t)) (\<lambda>v.
     if val v = 1 then
       bindE (skill_de jb j) (\<lambda>skill.
       bindE (getitem id p j) (\<lambda>pj.
       asignar_jobs jb x p val t js
         (fst acc @ [\<lparr>job_id = j, tecnico_id = t, res_duracion_horas = pj,
                      res_skill_requerida = skill\<rparr>],
          snd acc + pj)))
     else asignar_jobs jb x p val t js acc)"

text \<open>The outer loop \<^verbatim>\<open>for t in T\<close>; it also fills \<^verbatim>\<open>cargas_tecnicos\<close>.\<close>

fun asignar_tecnicos ::
  "job dataframe \<Rightarrow> (string \<times> string, lp_var) dict \<Rightarrow> (string, real) dict
     \<Rightarrow> (lp_var \<Rightarrow> real) \<Rightarrow> string list \<Rightarrow> string list
     \<Rightarrow> resultado list \<times> (string, real) dict
     \<Rightarrow> error + resultado list \<times> (string, real) dict" where
  "asignar_tecnicos jb x p val js [] acc = Inr acc"
| "asignar_tecnicos jb x p val js (t # ts) acc =
     bindE (asignar_jobs jb x p val t js (fst acc, 0)) (\<lambda>rc.
     asignar_tecnicos jb x p val js ts (fst rc, setitem (snd acc) t (snd rc)))"

text \<open>
  \<^verbatim>\<open>resultados_df.merge(tecnicos[tecnicos_cols], left_on='tecnico_id',
  right_on='id_tecnico', how='left')\<close>.  A frame built from an empty list has
  no column at all, so the merge raises KeyError on its key \<^verbatim>\<open>tecnico_id\<close>.
  A left row without a match keeps empty cells (\<open>None\<close>) on the right.
\<close>

record asignado = resultado +
  mer_id_tecnico :: "string option"
  mer_nombre :: "string option"
  mer_capacidad_diaria_h :: "real option"

definition tecnicos_cols :: "tecnico dataframe \<Rightarrow> string list" where
  "tecnicos_cols tc =
     (if ''nombre'' \<in> set (columns tc) then [''id_tecnico'', ''nombre'', ''capacidad_diaria_h'']
      else [''id_tecnico'', ''capacidad_diaria_h''])"

definition unir :: "tecnico dataframe \<Rightarrow> resultado \<Rightarrow> tecnico option \<Rightarrow> asignado" where
  "unir tc r m =
     \<lparr>job_id = job_id r, tecnico_id = tecnico_id r,
      res_duracion_horas = res_duracion_horas r, res_skill_requerida = res_skill_requerida r,
      mer_id_tecnico = map_option id_tecnico m,
      mer_nombre = (if ''nombre'' \<in> set (columns tc) then map_option nombre m else None),
      mer_capacidad_diaria_h = map_option capacidad_diaria_h m\<rparr>"

definition merge_tecnicos :: "resultado list \<Rightarrow> tecnico dataframe \<Rightarrow> error + asignado dataframe" where
  "merge_tecnicos resultados tc =
     (if missing (tecnicos_cols tc) tc \<noteq> [] then Inl (KeyError (hd (missing (tecnicos_cols tc) tc)))
      else if resultados = [] then Inl (KeyError ''tecnico_id'')
      else Inr \<lparr>columns = [''job_id'', ''tecnico_id'', ''duracion_horas'', ''skill_requerida'']
                             @ tecnicos_cols tc,
                rows = concat (map (\<lambda>r.
                         (case filter (\<lambda>m. id_tecnico m = tecnico_id r) (rows tc) of
                            [] \<Rightarrow> [unir tc r None]
                          | ms \<Rightarrow> map (\<lambda>m. unir tc r (Some m)) ms)) resultados)\<rparr>)"

record ejecucion_log =
  log_status :: string
  log_valor_objetivo :: real
  log_trabajos_asignados :: nat

record salida_a =
  assignment_results_csv :: "asignado dataframe"
  tecnicos_carga_csv :: "(string \<times> real) list"
  ejecucion_log_txt :: ejecucion_log

definition guardar ::
  "tablas \<Rightarrow> parametros \<Rightarrow> lp_status \<Rightarrow> (lp_var \<Rightarrow> real) \<Rightarrow> error + salida_a" where
  "guardar tb par status val =
     bindE (asignar_tecnicos (jobs tb) (x_dict (par_J par) (par_T par)) (par_p par) val
              (par_J par) (par_T par) ([], [])) (\<lambda>rc.
     bindE (merge_tecnicos (fst rc) (tecnicos tb)) (\<lambda>resultados_df.
     Inr \<lparr>assignment_results_csv = resultados_df,
          tecnicos_carga_csv = snd rc,
          ejecucion_log_txt =
            \<lparr>log_status = LpStatus status, log_valor_objetivo = val Var_L,
             log_trabajos_asignados = length (rows resultados_df)\<rparr>\<rparr>))"

subsection \<open>The script as a whole\<close>

text \<open>
  The solver is a parameter: it receives the model and answers with a status
  and a value for every variable.  A run ends either before the solver is
  called (\<open>Sin_resolver\<close>, with the exception raised) or after it
  (\<open>Resuelto\<close>).  Of the console output only the lines that report a status
  or a diagnostic are kept.
\<close>

datatype mensaje =
    Status string
  | Carga_maxima real
  | Error_cargando_archivos
  | Job_no_encontrado string
  | Solucion_encontrada
  | No_solucion_factible

datatype 'a fin = Sin_resolver error | Resuelto 'a

definition solve_assignment ::
  "archivos \<Rightarrow> (lp_problem \<Rightarrow> lp_status \<times> (lp_var \<Rightarrow> real))
     \<Rightarrow> mensaje list \<times> (error + salida_a) fin" where
  "solve_assignment fs solver =
     (case bindE (cargar_datos fs) (\<lambda>tb.
           bindE (preparar_parametros tb) (\<lambda>par.
           bindE (crear_modelo par) (\<lambda>prob. Inr (tb, par, prob)))) of
        Inl e \<Rightarrow> ([], Sin_resolver e)
      | Inr tpp \<Rightarrow>
          (let sol = solver (snd (snd tpp)) in
           ([Status (LpStatus (fst sol)), Carga_maxima (snd sol Var_L)],
            Resuelto (guardar (fst tpp) (fst (snd tpp)) (fst sol) (snd sol)))))"

section \<open>Stage (b): solve_schedule_cp.py\<close>

subsection \<open>Loading and the horizon (lines 16 to 43)\<close>

record tablas_b =
  jobs_b :: "job dataframe"
  tecnicos_b :: "tecnico dataframe"
  asignaciones :: "(string \<Rightarrow> string) dataframe"

text \<open>
  The three \<^verbatim>\<open>read_csv\<close> calls sit in one \<^verbatim>\<open>try\<close>; FileNotFoundError is
  caught, a message is printed and \<^verbatim>\<open>exit()\<close> ends the run.
\<close>

definition cargar_datos_b :: "archivos \<Rightarrow> error + tablas_b" where
  "cargar_datos_b fs =
     (case jobs_clean fs of
        None \<Rightarrow> Inl SystemExit
      | Some jb \<Rightarrow>
     (case tecnicos_clean fs of
        None \<Rightarrow> Inl SystemExit
      | Some tc \<Rightarrow>
     (case assignment_results fs of
        None \<Rightarrow> Inl SystemExit
      | Some asg \<Rightarrow> Inr \<lparr>jobs_b = jb, tecnicos_b = tc, asignaciones = asg\<rparr>)))"

definition DIAS_HORIZONTE :: int where
  "DIAS_HORIZONTE = 7"

definition HORAS_POR_DIA :: int where
  "HORAS_POR_DIA = 8"

definition HORIZONTE_MINUTOS :: int where
  "HORIZONTE_MINUTOS = DIAS_HORIZONTE * HORAS_POR_DIA * 60"

text \<open>
  \<^verbatim>\<open>jobs['duracion_minutos'] = jobs['duracion_horas'] * 60\<close> adds a column
  computed from another one.
\<close>

definition duracion_minutos :: "job \<Rightarrow> real" where
  "duracion_minutos r = duracion_horas r * 60"

definition convertir_duraciones :: "job dataframe \<Rightarrow> error + job dataframe" where
  "convertir_duraciones jb =
     (if ''duracion_horas'' \<in> set (columns jb)
      then Inr (jb\<lparr>columns := (if ''duracion_minutos'' \<in> set (columns jb) then columns jb
                                else columns jb @ [''duracion_minutos''])\<rparr>)
      else Inl (KeyError ''duracion_horas''))"

text \<open>Python's \<^verbatim>\<open>int(x)\<close> on a float drops the fraction, towards zero.\<close>

definition py_int :: "real \<Rightarrow> int" where
  "py_int r = (if 0 \<le> r then \<lfloor>r\<rfloor> else \<lceil>r\<rceil>)"

subsection \<open>The CP-SAT model (lines 47 to 141)\<close>

text \<open>
  As in the solver's own model, an integer variable is its index in the
  list of declared domains.  An interval variable is the triple of its start
  variable, its fixed size and its end variable; declaring it posts
  \<open>start + size = end\<close>.
\<close>

type_synonym interval_var = "nat \<times> int \<times> nat"

datatype cp_constraint =
    Interval nat int nat
  | NoOverlap "interval_var list"
  | LinearLe nat int
  | MaxEquality nat "nat list"

record cp_model =
  cp_variables :: "(int \<times> int) list"
  cp_constraints :: "cp_constraint list"
  cp_minimize :: "nat option"

definition CpModel :: cp_model where
  "CpModel = \<lparr>cp_variables = [], cp_constraints = [], cp_minimize = None\<rparr>"

definition NewIntVar :: "int \<Rightarrow> int \<Rightarrow> cp_model \<Rightarrow> nat \<times> cp_model" where
  "NewIntVar lo hi m = (length (cp_variables m), m\<lparr>cp_variables := cp_variables m @ [(lo, hi)]\<rparr>)"

definition NewIntervalVar :: "nat \<Rightarrow> int \<Rightarrow> nat \<Rightarrow> cp_model \<Rightarrow> interval_var \<times> cp_model" where
  "NewIntervalVar s d e m = ((s, d, e), m\<lparr>cp_constraints := cp_constraints m @ [Interval s d e]\<rparr>)"

definition Add :: "cp_constraint \<Rightarrow> cp_model \<Rightarrow> cp_model" where
  "Add c m = m\<lparr>cp_constraints := cp_constraints m @ [c]\<rparr>"

record estado =
  modelo :: cp_model
  start_vars :: "(string, nat) dict"
  end_vars :: "(string, nat) dict"
  interval_vars :: "(string, interval_var) dict"

text \<open>The loop of lines 58 to 77, one step per row of the job table.\<close>

fun crear_variables :: "job dataframe \<Rightarrow> job list \<Rightarrow> estado \<Rightarrow> error + estado" where
  "crear_variables jb [] st = Inr st"
| "crear_variables jb (row # rest) st =
     bindE (cell jb id_job ''id_job'' row) (\<lambda>jid.
     bindE (cell jb duracion_minutos ''duracion_minutos'' row) (\<lambda>dm.
     (let duracion = py_int dm;
          sm = NewIntVar 0 HORIZONTE_MINUTOS (modelo st);
          em = NewIntVar 0 HORIZONTE_MINUTOS (snd sm);
          im = NewIntervalVar (fst sm) duracion (fst em) (snd em)
      in crear_variables jb rest
           \<lparr>modelo = snd im,
            start_vars = setitem (start_vars st) jid (fst sm),
            end_vars = setitem (end_vars st) jid (fst em),
            interval_vars = setitem (interval_vars st) jid (fst im)\<rparr>)))"

definition columna_tecnico :: "(string \<Rightarrow> string) dataframe \<Rightarrow> string" where
  "columna_tecnico asg = (if ''Id_tecnico'' \<in> set (columns asg) then ''Id_tecnico'' else ''id_tecnico'')"

definition columna_job :: "(string \<Rightarrow> string) dataframe \<Rightarrow> string" where
  "columna_job asg = (if ''job_id'' \<in> set (columns asg) then ''job_id'' else ''id_job'')"

record agrupacion =
  jobs_por_tecnico :: "(string, interval_var list) dict"
  jobs_procesados :: nat
  jobs_omitidos :: nat
  avisos :: "mensaje list"

text \<open>The loop of lines 100 to 112, one step per row of the assignment table.\<close>

fun agrupar ::
  "(string \<Rightarrow> string) dataframe \<Rightarrow> (string, interval_var) dict \<Rightarrow> (string \<Rightarrow> string) list
     \<Rightarrow> agrupacion \<Rightarrow> error + agrupacion" where
  "agrupar asg ivs [] g = Inr g"
| "agrupar asg ivs (asignacion # rest) g =
     bindE (cell asg (\<lambda>r. r (columna_tecnico asg)) (columna_tecnico asg) asignacion) (\<lambda>tid.
     bindE (cell asg (\<lambda>r. r (columna_job asg)) (columna_job asg) asignacion) (\<lambda>jid.
     (case map_of ivs jid of
        Some iv \<Rightarrow>
          agrupar asg ivs rest
            (g\<lparr>jobs_por_tecnico :=
                 setitem (jobs_por_tecnico g) tid
                   ((case map_of (jobs_por_tecnico g) tid of None \<Rightarrow> [] | Some l \<Rightarrow> l) @ [iv]),
               jobs_procesados := jobs_procesados g + 1\<rparr>)
      | None \<Rightarrow>
          agrupar asg ivs rest
            (g\<lparr>jobs_omitidos := jobs_omitidos g + 1,
               avisos := avisos g @ [Job_no_encontrado jid]\<rparr>))))"

text \<open>Lines 118 to 120: one no-overlap constraint per technician with intervals.\<close>

definition no_overlap_por_tecnico :: "(string, interval_var list) dict \<Rightarrow> cp_model \<Rightarrow> cp_model" where
  "no_overlap_por_tecnico d m =
     fold (\<lambda>ti m'. if snd ti \<noteq> [] then Add (NoOverlap (snd ti)) m' else m') d m"

text \<open>
  The loop of lines 127 to 135.  \<^verbatim>\<open>datetime.now()\<close> is read once per row:
  \<open>ahora k\<close> is the reading taken at row \<open>k\<close>.  \<^verbatim>\<open>.days\<close> of a time
  difference is its number of whole days, rounded down.
\<close>

definition dias_restantes :: "int \<Rightarrow> int \<Rightarrow> int" where
  "dias_restantes dl now = (dl - now) div 86400000000"

definition max_start :: "int \<Rightarrow> int" where
  "max_start dias = min (dias * HORAS_POR_DIA * 60) HORIZONTE_MINUTOS"

fun restricciones_deadline ::
  "job dataframe \<Rightarrow> (string, nat) dict \<Rightarrow> (nat \<Rightarrow> int) \<Rightarrow> nat \<Rightarrow> job list \<Rightarrow> cp_model
     \<Rightarrow> error + cp_model" where
  "restricciones_deadline jb sv ahora k [] m = Inr m"
| "restricciones_deadline jb sv ahora k (row # rest) m =
     bindE (cell jb id_job ''id_job'' row) (\<lambda>jid.
     bindE (cell jb deadline ''deadline'' row) (\<lambda>dl.
     (if dias_restantes dl (ahora k) \<ge> 0 then
        bindE (getitem id sv jid) (\<lambda>s.
        restricciones_deadline jb sv ahora (Suc k) rest
          (Add (LinearLe s (max_start (dias_restantes dl (ahora k)))) m))
      else restricciones_deadline jb sv ahora (Suc k) rest m)))"

definition funcion_objetivo :: "(string, nat) dict \<Rightarrow> cp_model \<Rightarrow> cp_model" where
  "funcion_objetivo ev m =
     (let mk = NewIntVar 0 HORIZONTE_MINUTOS m
      in (Add (MaxEquality (fst mk) (map snd ev)) (snd mk))\<lparr>cp_minimize := Some (fst mk)\<rparr>)"

record construido =
  con_jobs :: "job dataframe"
  con_estado :: estado
  con_grupos :: agrupacion

definition estado_inicial :: estado where
  "estado_inicial = \<lparr>modelo = CpModel, start_vars = [], end_vars = [], interval_vars = []\<rparr>"

definition agrupacion_inicial :: agrupacion where
  "agrupacion_inicial = \<lparr>jobs_por_tecnico = [], jobs_procesados = 0, jobs_omitidos = 0, avisos = []\<rparr>"

definition construir_modelo :: "tablas_b \<Rightarrow> (nat \<Rightarrow> int) \<Rightarrow> error + construido" where
  "construir_modelo tb ahora =
     bindE (convertir_duraciones (jobs_b tb)) (\<lambda>jb.
     bindE (crear_variables jb (rows jb) estado_inicial) (\<lambda>st.
     bindE (agrupar (asignaciones tb) (interval_vars st) (rows (asignaciones tb))
              agrupacion_inicial) (\<lambda>g.
     bindE (restricciones_deadline jb (start_vars st) ahora 0 (rows jb)
              (no_overlap_por_tecnico (jobs_por_tecnico g) (modelo st))) (\<lambda>m.
     Inr \<lparr>con_jobs = jb,
          con_estado = st\<lparr>modelo := funcion_objetivo (end_vars st) m\<rparr>,
          con_grupos = g\<rparr>))))"

subsection \<open>What a solver's values mean for the CP-SAT model\<close>

definition disjuntos :: "(nat \<Rightarrow> int) \<Rightarrow> interval_var \<Rightarrow> interval_var \<Rightarrow> bool" where
  "disjuntos val a b = (val (snd (snd a)) \<le> val (fst b) \<or> val (snd (snd b)) \<le> val (fst a))"

fun no_overlap :: "(nat \<Rightarrow> int) \<Rightarrow> interval_var list \<Rightarrow> bool" where
  "no_overlap val [] = True"
| "no_overlap val (a # rest) = (list_all (disjuntos val a) rest \<and> no_overlap val rest)"

fun cp_holds :: "(nat \<Rightarrow> int) \<Rightarrow> cp_constraint \<Rightarrow> bool" where
  "cp_holds val (Interval s d e) = (val s + d = val e)"
| "cp_holds val (NoOverlap ivs) = no_overlap val ivs"
| "cp_holds val (LinearLe v c) = (val v \<le> c)"
| "cp_holds val (MaxEquality t vs) = (vs \<noteq> [] \<and> val t = Max (set (map val vs)))"

definition cp_satisfies :: "cp_model \<Rightarrow> (nat \<Rightarrow> int) \<Rightarrow> bool" where
  "cp_satisfies m val =
     (list_all (\<lambda>i. fst (cp_variables m ! i) \<le> val i \<and> val i \<le> snd (cp_variables m ! i))
        [0 ..< length (cp_variables m)] \<and>
      list_all (cp_holds val) (cp_constraints m))"

subsection \<open>Reading the schedule and writing it (lines 148 to 209)\<close>

datatype cp_status = UNKNOWN | MODEL_INVALID | FEASIBLE | INFEASIBLE | OPTIMAL

record horario =
  hor_job_id :: string
  hor_descripcion :: string
  hor_tecnico_id :: string
  dia :: int
  hora_inicio :: "int \<times> int"
  hor_duracion_horas :: real
  hora_fin :: "int \<times> int"
  hor_skill_requerida :: string

text \<open>
  \<^verbatim>\<open>start_minutos\<close> and \<^verbatim>\<open>end_minutos\<close> of lines 163 and 164: the solver's
  values of the variables that the two dictionaries hold for the job.
\<close>

definition tiempos :: "estado \<Rightarrow> (nat \<Rightarrow> int) \<Rightarrow> string \<Rightarrow> error + int \<times> int" where
  "tiempos st val jid =
     bindE (getitem id (start_vars st) jid) (\<lambda>s.
     bindE (getitem id (end_vars st) jid) (\<lambda>e.
     Inr (val s, val e)))"

definition tecnico_asignado :: "(string \<Rightarrow> string) dataframe \<Rightarrow> string \<Rightarrow> error + string" where
  "tecnico_asignado asg jid =
     bindE (column asg (\<lambda>r. r (columna_job asg)) (columna_job asg)) (\<lambda>ids.
     (case filter (\<lambda>r. r (columna_job asg) = jid) (rows asg) of
        [] \<Rightarrow> Inr ''No asignado''
      | r # _ \<Rightarrow> cell asg (\<lambda>r. r (columna_tecnico asg)) (columna_tecnico asg) r))"

text \<open>The body of the loop of lines 158 to 188; \<open>None\<close> is its \<^verbatim>\<open>continue\<close>.\<close>

definition fila_horario ::
  "job dataframe \<Rightarrow> (string \<Rightarrow> string) dataframe \<Rightarrow> estado \<Rightarrow> (nat \<Rightarrow> int) \<Rightarrow> job
     \<Rightarrow> error + horario option" where
  "fila_horario jb asg st val row =
     bindE (cell jb id_job ''id_job'' row) (\<lambda>jid.
     (if map_of (start_vars st) jid = None then Inr None
      else
        bindE (tiempos st val jid) (\<lambda>se.
        bindE (cell jb duracion_minutos ''duracion_minutos'' row) (\<lambda>dm.
        bindE (tecnico_asignado asg jid) (\<lambda>tid.
        bindE (cell jb descripcion ''descripcion'' row) (\<lambda>ds.
        bindE (cell jb skill_requerida ''skill_requerida'' row) (\<lambda>sk.
        Inr (Some
          \<lparr>hor_job_id = jid, hor_descripcion = ds, hor_tecnico_id = tid,
           dia = fst se div (HORAS_POR_DIA * 60) + 1,
           hora_inicio = ((fst se mod (HORAS_POR_DIA * 60)) div 60, fst se mod 60),
           hor_duracion_horas = dm / 60,
           hora_fin = ((snd se mod (HORAS_POR_DIA * 60)) div 60, snd se mod 60),
           hor_skill_requerida = sk\<rparr>))))))))"

text \<open>
  What a run of stage (b) leaves behind after the solver has answered: the
  lines printed, the schedule file if it was written, and the exception that
  ended the run if there was one.  After the file is written the summary
  reads \<^verbatim>\<open>schedule_df['dia']\<close>, a column that an empty schedule lacks.
\<close>

record salida_b =
  impreso :: "mensaje list"
  schedule_detailed_csv :: "horario list option"
  excepcion :: "error option"

definition procesar_resultados ::
  "tablas_b \<Rightarrow> construido \<Rightarrow> cp_status \<Rightarrow> (nat \<Rightarrow> int) \<Rightarrow> salida_b" where
  "procesar_resultados tb con status val =
     (if status = OPTIMAL \<or> status = FEASIBLE then
        (case mapE (fila_horario (con_jobs con) (asignaciones tb) (con_estado con) val)
                (rows (con_jobs con)) of
           Inl e \<Rightarrow>
             \<lparr>impreso = avisos (con_grupos con) @ [Solucion_encontrada],
              schedule_detailed_csv = None, excepcion = Some e\<rparr>
         | Inr filas \<Rightarrow>
             \<lparr>impreso = avisos (con_grupos con) @ [Solucion_encontrada],
              schedule_detailed_csv = Some (concat (map (\<lambda>f. case f of None \<Rightarrow> [] | Some h \<Rightarrow> [h]) filas)),
              excepcion = (if concat (map (\<lambda>f. case f of None \<Rightarrow> [] | Some h \<Rightarrow> [h]) filas) = []
                           then Some (KeyError ''dia'') else None)\<rparr>)
      else
        \<lparr>impreso = avisos (con_grupos con) @ [No_solucion_factible],
         schedule_detailed_csv = None, excepcion = None\<rparr>)"

definition solve_schedule_cp ::
  "archivos \<Rightarrow> (nat \<Rightarrow> int) \<Rightarrow> (cp_model \<Rightarrow> cp_status \<times> (nat \<Rightarrow> int)) \<Rightarrow> salida_b fin" where
  "solve_schedule_cp fs ahora solver =
     (case bindE (cargar_datos_b fs) (\<lambda>tb.
           bindE (construir_modelo tb ahora) (\<lambda>con. Inr (tb, con))) of
        Inl e \<Rightarrow> Sin_resolver e
      | Inr tc \<Rightarrow>
          (let sol = solver (modelo (con_estado (snd tc)))
           in Resuelto (procesar_resultados (fst tc) (snd tc) (fst sol) (snd sol))))"

section \<open>Notions used to state the properties\<close>

text \<open>
  The identifying part of a row of the assignment table, the load of a
  technician under given solver values, and \<^verbatim>\<open>d.get(k, 0)\<close>.
\<close>

definition clave :: "'a resultado_scheme \<Rightarrow> string \<times> string \<times> real" where
  "clave r = (job_id r, tecnico_id r, res_duracion_horas r)"

definition carga_de :: "(string \<Rightarrow> real) \<Rightarrow> (lp_var \<Rightarrow> real) \<Rightarrow> string list \<Rightarrow> string \<Rightarrow> real" where
  "carga_de d val js t = sum_list (map d (filter (\<lambda>j. val (Var_x j t) = 1) js))"

definition get0 :: "('k, real) dict \<Rightarrow> 'k \<Rightarrow> real" where
  "get0 d k = (case map_of d k of None \<Rightarrow> 0 | Some v \<Rightarrow> v)"

section \<open>A small instance of stage (a)\<close>

text \<open>
  Two jobs of two and three hours, two technicians of eight hours a day, the
  first one qualified for both jobs and the second for none.  The values
  \<open>ej_val\<close> give both jobs to the first technician, with \<open>L = 5\<close>.
\<close>

definition ej_jobs :: "job dataframe" where
  "ej_jobs = \<lparr>columns = [''id_job'', ''duracion_horas'', ''skill_requerida'', ''deadline'', ''descripcion''],
     rows = [\<lparr>id_job = ''J1'', duracion_horas = 2, skill_requerida = ''red'', deadline = 0, descripcion = ''router''\<rparr>,
             \<lparr>id_job = ''J2'', duracion_horas = 3, skill_requerida = ''red'', deadline = 0, descripcion = ''switch''\<rparr>]\<rparr>"

definition ej_tecnicos :: "tecnico dataframe" where
  "ej_tecnicos = \<lparr>columns = [''Id_tecnico'', ''nombre'', ''capacidad_diaria_h''],
     rows = [\<lparr>id_tecnico = ''T1'', capacidad_diaria_h = 8, nombre = ''Ana''\<rparr>,
             \<lparr>id_tecnico = ''T2'', capacidad_diaria_h = 8, nombre = ''Luis''\<rparr>]\<rparr>"

definition ej_habilidades :: "habilidad dataframe" where
  "ej_habilidades = \<lparr>columns = [''id_job'', ''id_tecnico'', ''compatible''],
     rows = [\<lparr>hab_id_job = ''J1'', hab_id_tecnico = ''T1'', compatible = 1\<rparr>,
             \<lparr>hab_id_job = ''J1'', hab_id_tecnico = ''T2'', compatible = 0\<rparr>,
             \<lparr>hab_id_job = ''J2'', hab_id_tecnico = ''T1'', compatible = 1\<rparr>,
             \<lparr>hab_id_job = ''J2'', hab_id_tecnico = ''T2'', compatible = 0\<rparr>]\<rparr>"


definition ej_tablas :: tablas where
  "ej_tablas = \<lparr>jobs = ej_jobs,
     tecnicos = ej_tecnicos\<lparr>columns := [''id_tecnico'', ''nombre'', ''capacidad_diaria_h'']\<rparr>,
     habilidades = ej_habilidades\<rparr>"

definition ej_par :: parametros where
  "ej_par = \<lparr>par_J = [''J1'', ''J2''], par_T = [''T1'', ''T2''],
        par_p = [(''J1'', 2), (''J2'', 3)],
        par_H = [(''T1'', 56), (''T2'', 56)],
        par_q =
          [((''J1'', ''T1''), 1), ((''J1'', ''T2''), 0),
           ((''J2'', ''T1''), 1), ((''J2'', ''T2''), 0)]\<rparr>"

definition ej_prob :: lp_problem where
  "ej_prob = \<lparr>binary_vars =
        [Var_x ''J1'' ''T1'', Var_x ''J1'' ''T2'', Var_x ''J2'' ''T1'', Var_x ''J2'' ''T2''],
        continuous_vars = [(Var_L, 0)],
        objective = LpAffineExpression [(1, Var_L)] 0,
        constraints =
          [LpConstraint ''Asignacion_Unica_J1''
            (LpAffineExpression [(1, Var_x ''J1'' ''T1''), (1, Var_x ''J1'' ''T2'')] 0)
            LpConstraintEQ (LpAffineExpression [] 1),
           LpConstraint ''Asignacion_Unica_J2''
            (LpAffineExpression [(1, Var_x ''J2'' ''T1''), (1, Var_x ''J2'' ''T2'')] 0)
            LpConstraintEQ (LpAffineExpression [] 1),
           LpConstraint ''Compatibilidad_J1_T1''
            (LpAffineExpression [(1, Var_x ''J1'' ''T1'')] 0) LpConstraintLE
            (LpAffineExpression [] 1),
           LpConstraint ''Compatibilidad_J1_T2''
            (LpAffineExpression [(1, Var_x ''J1'' ''T2'')] 0) LpConstraintLE
            (LpAffineExpression [] 0),
           LpConstraint ''Compatibilidad_J2_T1''
            (LpAffineExpression [(1, Var_x ''J2'' ''T1'')] 0) LpConstraintLE
            (LpAffineExpression [] 1),
           LpConstraint ''Compatibilidad_J2_T2''
            (LpAffineExpression [(1, Var_x ''J2'' ''T2'')] 0) LpConstraintLE
            (LpAffineExpression [] 0),
           LpConstraint ''Balance_Carga_T1''
            (LpAffineExpression [(2, Var_x ''J1'' ''T1''), (3, Var_x ''J2'' ''T1'')] 0)
            LpConstraintLE (LpAffineExpression [(1, Var_L)] 0),
           LpConstraint ''Balance_Carga_T2''
            (LpAffineExpression [(2, Var_x ''J1'' ''T2''), (3, Var_x ''J2'' ''T2'')] 0)
            LpConstraintLE (LpAffineExpression [(1, Var_L)] 0),
           LpConstraint ''Capacidad_T1''
            (LpAffineExpression [(2, Var_x ''J1'' ''T1''), (3, Var_x ''J2'' ''T1'')] 0)
            LpConstraintLE (LpAffineExpression [] 56),
           LpConstraint ''Capacidad_T2''
            (LpAffineExpression [(2, Var_x ''J1'' ''T2''), (3, Var_x ''J2'' ''T2'')] 0)
            LpConstraintLE (LpAffineExpression [] 56)]\<rparr>"

definition ej_val :: "lp_var \<Rightarrow> real" where
  "ej_val v = (case v of Var_x j t \<Rightarrow> (if t = ''T1'' then 1 else 0) | Var_L \<Rightarrow> 5)"

definition ej_salida :: salida_a where
  "ej_salida = \<lparr>assignment_results_csv =
        \<lparr>columns = [''job_id'', ''tecnico_id'', ''duracion_horas'', ''skill_requerida'',
                    ''id_tecnico'', ''nombre'', ''capacidad_diaria_h''],
           rows =
             [\<lparr>job_id = ''J1'', tecnico_id = ''T1'', res_duracion_horas = 2,
                 res_skill_requerida = ''red'',
                 mer_id_tecnico = Some ''T1'', mer_nombre = Some ''Ana'',
                 mer_capacidad_diaria_h = Some 8\<rparr>,
              \<lparr>job_id = ''J2'', tecnico_id = ''T1'', res_duracion_horas = 3,
                 res_skill_requerida = ''red'',
                 mer_id_tecnico = Some ''T1'', mer_nombre = Some ''Ana'',
                 mer_capacidad_diaria_h = Some 8\<rparr>]\<rparr>,
        tecnicos_carga_csv = [(''T1'', 5), (''T2'', 0)],
        ejecucion_log_txt =
          \<lparr>log_status = ''Optimal'', log_valor_objetivo = 5, log_trabajos_asignados = 2\<rparr>\<rparr>"

section \<open>An instance of stage (a) with a pair missing from the compatibility table\<close>

text \<open>
  One job and two technicians.  The compatibility table has a single row: the
  job with the first technician, flagged 0.
\<close>

definition aus_tablas :: tablas where
  "aus_tablas =
     \<lparr>jobs = \<lparr>columns = [''id_job'', ''duracion_horas'', ''skill_requerida''],
          rows = [\<lparr>id_job = ''J1'', duracion_horas = 2, skill_requerida = ''gas'',
                   deadline = 0, descripcion = ''''\<rparr>]\<rparr>,
      tecnicos = \<lparr>columns = [''id_tecnico'', ''capacidad_diaria_h''],
          rows = [\<lparr>id_tecnico = ''T1'', capacidad_diaria_h = 8, nombre = ''''\<rparr>,
                  \<lparr>id_tecnico = ''T2'', capacidad_diaria_h = 8, nombre = ''''\<rparr>]\<rparr>,
      habilidades = \<lparr>columns = [''id_job'', ''id_tecnico'', ''compatible''],
          rows = [\<lparr>hab_id_job = ''J1'', hab_id_tecnico = ''T1'', compatible = 0\<rparr>]\<rparr>\<rparr>"

definition aus_archivos :: archivos where
  "aus_archivos =
     \<lparr>jobs_clean = Some (jobs aus_tablas), tecnicos_clean = Some (tecnicos aus_tablas),
      habilidades_clean = Some (habilidades aus_tablas), assignment_results = None\<rparr>"

definition aus_par :: parametros where
  "aus_par = \<lparr>par_J = [''J1''], par_T = [''T1'', ''T2''], par_p = [(''J1'', 2)],
        par_H = [(''T1'', 56), (''T2'', 56)],
        par_q = [((''J1'', ''T1''), 0)]\<rparr>"

definition aus_prob :: lp_problem where
  "aus_prob = \<lparr>binary_vars = [Var_x ''J1'' ''T1'', Var_x ''J1'' ''T2''],
        continuous_vars = [(Var_L, 0)],
        objective = LpAffineExpression [(1, Var_L)] 0,
        constraints =
          [LpConstraint ''Asignacion_Unica_J1''
            (LpAffineExpression [(1, Var_x ''J1'' ''T1''), (1, Var_x ''J1'' ''T2'')] 0)
            LpConstraintEQ (LpAffineExpression [] 1),
           LpConstraint ''Compatibilidad_J1_T1''
            (LpAffineExpression [(1, Var_x ''J1'' ''T1'')] 0) LpConstraintLE
            (LpAffineExpression [] 0),
           LpConstraint ''Balance_Carga_T1''
            (LpAffineExpression [(2, Var_x ''J1'' ''T1'')] 0) LpConstraintLE
            (LpAffineExpression [(1, Var_L)] 0),
           LpConstraint ''Balance_Carga_T2''
            (LpAffineExpression [(2, Var_x ''J1'' ''T2'')] 0) LpConstraintLE
            (LpAffineExpression [(1, Var_L)] 0),
           LpConstraint ''Capacidad_T1''
            (LpAffineExpression [(2, Var_x ''J1'' ''T1'')] 0) LpConstraintLE
            (LpAffineExpression [] 56),
           LpConstraint ''Capacidad_T2''
            (LpAffineExpression [(2, Var_x ''J1'' ''T2'')] 0) LpConstraintLE
            (LpAffineExpression [] 56)]\<rparr>"

definition aus_val :: "lp_var \<Rightarrow> real" where
  "aus_val v = (case v of Var_x j t \<Rightarrow> (if t = ''T2'' then 1 else 0) | Var_L \<Rightarrow> 2)"

definition aus_salida :: salida_a where
  "aus_salida = \<lparr>assignment_results_csv =
        \<lparr>columns = [''job_id'', ''tecnico_id'', ''duracion_horas'', ''skill_requerida'',
                    ''id_tecnico'', ''capacidad_diaria_h''],
           rows =
             [\<lparr>job_id = ''J1'', tecnico_id = ''T2'', res_duracion_horas = 2,
                 res_skill_requerida = ''gas'',
                 mer_id_tecnico = Some ''T2'', mer_nombre = None,
                 mer_capacidad_diaria_h = Some 8\<rparr>]\<rparr>,
        tecnicos_carga_csv = [(''T1'', 0), (''T2'', 2)],
        ejecucion_log_txt =
          \<lparr>log_status = ''Optimal'', log_valor_objetivo = 2, log_trabajos_asignados = 1\<rparr>\<rparr>"

section \<open>Notions used to state the properties of stage (b)\<close>

text \<open>
  The invariant of the variable loop, the intervals that the assignment rows
  of a technician contribute, the invariant of the grouping loop, and the
  list of deadline constraints that the deadline loop posts.
\<close>

definition vars_ok :: "job list \<Rightarrow> estado \<Rightarrow> bool" where
  "vars_ok done st \<longleftrightarrow>
     fst ` set (start_vars st) = id_job ` set done \<and>
     fst ` set (end_vars st) = id_job ` set done \<and>
     fst ` set (interval_vars st) = id_job ` set done \<and>
     (\<forall>v \<in> set (cp_variables (modelo st)). v = (0, HORIZONTE_MINUTOS)) \<and>
     (\<forall>c \<in> set (cp_constraints (modelo st)). \<exists>s d e. c = Interval s d e) \<and>
     (\<forall>jid s d e. map_of (interval_vars st) jid = Some (s, d, e) \<longrightarrow>
        map_of (start_vars st) jid = Some s \<and> map_of (end_vars st) jid = Some e \<and>
        s < length (cp_variables (modelo st)) \<and> e < length (cp_variables (modelo st)) \<and>
        Interval s d e \<in> set (cp_constraints (modelo st)) \<and>
        (\<exists>r \<in> set done. id_job r = jid \<and> d = py_int (duracion_minutos r)))"

definition intervalos_de ::
  "(string \<Rightarrow> string) dataframe \<Rightarrow> (string, interval_var) dict \<Rightarrow> (string \<Rightarrow> string) list
     \<Rightarrow> string \<Rightarrow> interval_var list" where
  "intervalos_de asg ivs rs t =
     concat (map (\<lambda>a. if a (columna_tecnico asg) = t
                       then (case map_of ivs (a (columna_job asg)) of Some iv \<Rightarrow> [iv] | None \<Rightarrow> [])
                       else []) rs)"

definition grupos_ok ::
  "(string \<Rightarrow> string) dataframe \<Rightarrow> (string, interval_var) dict \<Rightarrow> (string \<Rightarrow> string) list
     \<Rightarrow> agrupacion \<Rightarrow> bool" where
  "grupos_ok asg ivs done g \<longleftrightarrow>
     (\<forall>t. map_of (jobs_por_tecnico g) t =
           (if intervalos_de asg ivs done t = [] then None
            else Some (intervalos_de asg ivs done t))) \<and>
     avisos g = map Job_no_encontrado
                  (filter (\<lambda>j. map_of ivs j = None) (map (\<lambda>a. a (columna_job asg)) done)) \<and>
     jobs_omitidos g = length (avisos g) \<and>
     jobs_procesados g =
       length (filter (\<lambda>j. map_of ivs j \<noteq> None) (map (\<lambda>a. a (columna_job asg)) done))"

definition limite_de :: "(string, nat) dict \<Rightarrow> (nat \<Rightarrow> int) \<Rightarrow> nat \<Rightarrow> job \<Rightarrow> cp_constraint list" where
  "limite_de sv ahora k row =
     (if dias_restantes (deadline row) (ahora k) \<ge> 0
      then (case map_of sv (id_job row) of
              Some s \<Rightarrow> [LinearLe s (max_start (dias_restantes (deadline row) (ahora k)))]
            | None \<Rightarrow> [])
      else [])"

fun limites :: "(string, nat) dict \<Rightarrow> (nat \<Rightarrow> int) \<Rightarrow> nat \<Rightarrow> job list \<Rightarrow> cp_constraint list" where
  "limites sv ahora k [] = []"
| "limites sv ahora k (row # rest) = limite_de sv ahora k row @ limites sv ahora (Suc k) rest"

section \<open>Small instances of stage (b)\<close>

text \<open>
  Three jobs of two, three and one hours.  The assignment table gives the
  first two to the same technician, has no row for the third and has a row
  for a job that the job table lacks.  With the clock at 0 the first deadline
  is two days ahead, the second is past and the third lies beyond the
  horizon.  The values \<open>ejb_val\<close> run the first two jobs one after the
  other from minute 0.  A second instance has one job of 0.33 hours.
\<close>

definition fila_asg :: "string \<Rightarrow> string \<Rightarrow> string \<Rightarrow> string" where
  "fila_asg j t c = (if c = ''job_id'' then j
                     else if c = ''tecnico_id'' \<or> c = ''id_tecnico'' then t else '''')"

definition ejb_tablas :: tablas_b where
  "ejb_tablas =
     \<lparr>jobs_b = \<lparr>columns = [''id_job'', ''duracion_horas'', ''skill_requerida'', ''deadline'', ''descripcion''],
          rows = [\<lparr>id_job = ''J1'', duracion_horas = 2, skill_requerida = ''red'',
                   deadline = 176400000000, descripcion = ''router''\<rparr>,
                  \<lparr>id_job = ''J2'', duracion_horas = 3, skill_requerida = ''red'',
                   deadline = - 1, descripcion = ''switch''\<rparr>,
                  \<lparr>id_job = ''J3'', duracion_horas = 1, skill_requerida = ''gas'',
                   deadline = 864000000000, descripcion = ''valvula''\<rparr>]\<rparr>,
      tecnicos_b = \<lparr>columns = [''id_tecnico'', ''capacidad_diaria_h''],
          rows = [\<lparr>id_tecnico = ''T1'', capacidad_diaria_h = 8, nombre = ''''\<rparr>]\<rparr>,
      asignaciones = \<lparr>columns = [''job_id'', ''tecnico_id'', ''duracion_horas'',
             ''skill_requerida'', ''id_tecnico'', ''capacidad_diaria_h''],
          rows = [fila_asg ''J1'' ''T1'', fila_asg ''J2'' ''T1'', fila_asg ''J9'' ''T1'']\<rparr>\<rparr>"

definition ejb_archivos :: archivos where
  "ejb_archivos =
     \<lparr>jobs_clean = Some (jobs_b ejb_tablas), tecnicos_clean = Some (tecnicos_b ejb_tablas),
      habilidades_clean = None, assignment_results = Some (asignaciones ejb_tablas)\<rparr>"

definition ejb_ahora :: "nat \<Rightarrow> int" where
  "ejb_ahora k = 0"

definition ejb_con :: construido where
  "ejb_con =
     \<lparr>con_jobs = (jobs_b ejb_tablas)\<lparr>columns := [''id_job'', ''duracion_horas'', ''skill_requerida'',
                     ''deadline'', ''descripcion'', ''duracion_minutos'']\<rparr>,
      con_estado =
        \<lparr>modelo =
           \<lparr>cp_variables =
              [(0, 3360), (0, 3360), (0, 3360), (0, 3360), (0, 3360), (0, 3360), (0, 3360)],
            cp_constraints =
              [Interval 0 120 1, Interval 2 180 3, Interval 4 60 5,
               NoOverlap [(0, 120, 1), (2, 180, 3)], LinearLe 0 960,
               LinearLe 4 3360, MaxEquality 6 [1, 3, 5]],
            cp_minimize = Some 6\<rparr>,
         start_vars = [(''J1'', 0), (''J2'', 2), (''J3'', 4)],
         end_vars = [(''J1'', 1), (''J2'', 3), (''J3'', 5)],
         interval_vars = [(''J1'', 0, 120, 1), (''J2'', 2, 180, 3), (''J3'', 4, 60, 5)]\<rparr>,
      con_grupos =
        \<lparr>jobs_por_tecnico = [(''T1'', [(0, 120, 1), (2, 180, 3)])],
         jobs_procesados = 2, jobs_omitidos = 1,
         avisos = [Job_no_encontrado ''J9'']\<rparr>\<rparr>"

definition ejb_val :: "nat \<Rightarrow> int" where
  "ejb_val i = (if i < 7 then [0, 120, 120, 300, 0, 60, 300] ! i else 0)"




section \<open>Lemmas on the error monad and on dictionaries\<close>

lemma bindE_Inr_iff: "bindE m f = Inr y \<longleftrightarrow> (\<exists>v. m = Inr v \<and> f v = Inr y)"
  by (cases m) (simp_all add: bindE_def)

lemma bindE_Inr [simp]: "bindE (Inr v) f = f v"
  by (simp add: bindE_def)

lemma bindE_Inl [simp]: "bindE (Inl e) f = Inl e"
  by (simp add: bindE_def)

lemma mapE_Inr_map: "(\<And>x. x \<in> set xs \<Longrightarrow> f x = Inr (g x)) \<Longrightarrow> mapE f xs = Inr (map g xs)"
  by (induction xs) simp_all

lemma mapE_Inr_D: "mapE f xs = Inr ys \<Longrightarrow> list_all2 (\<lambda>x y. f x = Inr y) xs ys"
proof (induction xs arbitrary: ys)
  case Nil
  then show ?case by simp
next
  case (Cons x xs)
  from Cons.prems obtain y ys' where "f x = Inr y" "mapE f xs = Inr ys'" "ys = y # ys'"
    by (auto simp: bindE_Inr_iff)
  with Cons.IH show ?case by simp
qed

lemma mapE_Inr_eq_map:
  assumes "mapE f xs = Inr ys" and "\<And>x y. x \<in> set xs \<Longrightarrow> f x = Inr y \<Longrightarrow> y = g x"
  shows "ys = map g xs"
  using assms
proof (induction xs arbitrary: ys)
  case Nil
  then show ?case by simp
next
  case (Cons x xs)
  from Cons.prems(1) obtain y ys' where *: "f x = Inr y" "mapE f xs = Inr ys'" "ys = y # ys'"
    by (auto simp: bindE_Inr_iff)
  have "ys' = map g xs" using Cons.IH [OF *(2)] Cons.prems(2) by simp
  moreover have "y = g x" using Cons.prems(2) * by simp
  ultimately show ?case using * by simp
qed

lemma map_of_fold_update:
  "map_of (fold (\<lambda>kv d. AList.update (fst kv) (snd kv) d) kvs d) = map_of d ++ map_of (rev kvs)"
proof (induction kvs arbitrary: d)
  case Nil
  then show ?case by simp
next
  case (Cons kv kvs)
  show ?case
    by (simp add: Cons.IH update_conv' map_add_def fun_eq_iff split: option.splits)
qed

lemma map_of_dict_of: "map_of (dict_of kvs) = map_of (rev kvs)"
  by (simp add: dict_of_def setitem_def map_of_fold_update)


lemma map_of_dict_of_None: "k \<notin> fst ` set kvs \<Longrightarrow> map_of (dict_of kvs) k = None"
  by (simp add: map_of_dict_of map_of_eq_None_iff)

lemma map_of_dict_of_fun:
  "k \<in> set ks \<Longrightarrow> map_of (dict_of (map (\<lambda>k. (k, g k)) ks)) k = Some (g k)"
proof -
  assume "k \<in> set ks"
  then have "map_of (rev (map (\<lambda>k. (k, g k)) ks)) k = Some (g k)"
    by (induction ks rule: rev_induct) auto
  then show ?thesis by (simp add: map_of_dict_of)
qed

lemma keys_dict_of: "fst ` set (dict_of kvs) = fst ` set kvs"
proof -
  have "fst ` set (dict_of kvs) = dom (map_of (dict_of kvs))" by (simp add: dom_map_of_conv_image_fst)
  also have "\<dots> = dom (map_of (rev kvs))" by (simp add: map_of_dict_of)
  also have "\<dots> = fst ` set kvs" by (simp add: dom_map_of_conv_image_fst)
  finally show ?thesis .
qed

section \<open>Stage (a): the model that is built, and what its solutions satisfy\<close>

lemma map_of_graph:
  "(\<And>k v. (k, v) \<in> set kvs \<Longrightarrow> v = g k) \<Longrightarrow>
   map_of kvs k = (if k \<in> fst ` set kvs then Some (g k) else None)"
  by (induction kvs) (auto simp: rev_image_eqI)

lemma map_of_x_dict:
  "map_of (x_dict js ts) (j, t) = (if j \<in> set js \<and> t \<in> set ts then Some (Var_x j t) else None)"
proof -
  let ?kvs = "concat (map (\<lambda>j. map (\<lambda>t. ((j, t), Var_x j t)) ts) js)"
  have "map_of (rev ?kvs) (j, t) =
        (if (j, t) \<in> fst ` set (rev ?kvs) then Some (case (j, t) of (a, b) \<Rightarrow> Var_x a b) else None)"
    by (rule map_of_graph) auto
  moreover have "(j, t) \<in> fst ` set (rev ?kvs) \<longleftrightarrow> j \<in> set js \<and> t \<in> set ts"
    by (auto simp: image_iff)
  ultimately show ?thesis by (simp add: x_dict_def map_of_dict_of)
qed

lemma getitem_x_dict:
  "j \<in> set js \<Longrightarrow> t \<in> set ts \<Longrightarrow> getitem show_pair (x_dict js ts) (j, t) = Inr (Var_x j t)"
  by (simp add: getitem_def map_of_x_dict)

lemma x_dict_binary: "j \<in> set js \<Longrightarrow> t \<in> set ts \<Longrightarrow> Var_x j t \<in> set (map snd (x_dict js ts))"
proof -
  assume "j \<in> set js" "t \<in> set ts"
  then have "map_of (x_dict js ts) (j, t) = Some (Var_x j t)" by (simp add: map_of_x_dict)
  then have "((j, t), Var_x j t) \<in> set (x_dict js ts)" by (rule map_of_SomeD)
  then show ?thesis by force
qed

lemma getitem_Inr_iff: "getitem shw d k = Inr v \<longleftrightarrow> map_of d k = Some v"
  by (simp add: getitem_def split: option.splits)

lemma getitem_Some: "map_of d k = Some v \<Longrightarrow> getitem shw d k = Inr v"
  by (simp add: getitem_def)

lemma column_Inr_iff: "column df fld c = Inr xs \<longleftrightarrow> c \<in> set (columns df) \<and> xs = map fld (rows df)"
  by (auto simp: column_def)

lemma cell_Inr_iff: "cell df fld c r = Inr v \<longleftrightarrow> c \<in> set (columns df) \<and> v = fld r"
  by (auto simp: cell_def)

lemma preparar_parametros_Inr:
  assumes "preparar_parametros tb = Inr par"
  shows "par_J par = map id_job (rows (jobs tb))"
    and "par_T par = map id_tecnico (rows (tecnicos tb))"
    and "par_p par = dict_of (map (\<lambda>r. (id_job r, duracion_horas r)) (rows (jobs tb)))"
    and "par_H par = dict_of (map (\<lambda>r. (id_tecnico r, capacidad_diaria_h r * 7)) (rows (tecnicos tb)))"
    and "par_q par = dict_of (map (\<lambda>r. ((hab_id_job r, hab_id_tecnico r), compatible r))
                                (rows (habilidades tb)))"
proof -
  from assms obtain js ts ds hs qs where
    js: "js = map id_job (rows (jobs tb))" and
    ts: "ts = map id_tecnico (rows (tecnicos tb))" and
    ds: "ds = map duracion_horas (rows (jobs tb))" and
    hs: "hs = map (\<lambda>r. capacidad_diaria_h r * 7) (rows (tecnicos tb))" and
    qs: "mapE (\<lambda>r.
              bindE (cell (habilidades tb) hab_id_job ''id_job'' r) (\<lambda>j.
              bindE (cell (habilidades tb) hab_id_tecnico ''id_tecnico'' r) (\<lambda>t.
              bindE (cell (habilidades tb) compatible ''compatible'' r) (\<lambda>c.
              Inr ((j, t), c))))) (rows (habilidades tb)) = Inr qs" and
    par: "par = \<lparr>par_J = js, par_T = ts, par_p = dict_of (zip js ds),
          par_H = dict_of (zip ts hs), par_q = dict_of qs\<rparr>"
    unfolding preparar_parametros_def by (auto simp: bindE_Inr_iff column_Inr_iff)
  have "qs = map (\<lambda>r. ((hab_id_job r, hab_id_tecnico r), compatible r)) (rows (habilidades tb))"
    by (rule mapE_Inr_eq_map [OF qs]) (auto simp: bindE_Inr_iff cell_Inr_iff)
  moreover have "zip js ds = map (\<lambda>r. (id_job r, duracion_horas r)) (rows (jobs tb))"
    by (simp add: js ds zip_map_map) (simp add: zip_same_conv_map)
  moreover have "zip ts hs = map (\<lambda>r. (id_tecnico r, capacidad_diaria_h r * 7)) (rows (tecnicos tb))"
    by (simp add: ts hs zip_map_map) (simp add: zip_same_conv_map)
  ultimately show "par_J par = map id_job (rows (jobs tb))"
    and "par_T par = map id_tecnico (rows (tecnicos tb))"
    and "par_p par = dict_of (map (\<lambda>r. (id_job r, duracion_horas r)) (rows (jobs tb)))"
    and "par_H par = dict_of (map (\<lambda>r. (id_tecnico r, capacidad_diaria_h r * 7)) (rows (tecnicos tb)))"
    and "par_q par = dict_of (map (\<lambda>r. ((hab_id_job r, hab_id_tecnico r), compatible r))
                                (rows (habilidades tb)))"
    by (simp_all add: par js ts)
qed

lemma mapE_Inr_mem:
  "mapE f xs = Inr ys \<Longrightarrow> x \<in> set xs \<Longrightarrow> f x = Inr y \<Longrightarrow> y \<in> set ys"
proof (induction xs arbitrary: ys)
  case Nil
  then show ?case by simp
next
  case (Cons a xs)
  from Cons.prems(1) obtain b ys' where *: "f a = Inr b" "mapE f xs = Inr ys'" "ys = b # ys'"
    by (auto simp: bindE_Inr_iff)
  show ?case
  proof (cases "x = a")
    case True
    with * Cons.prems(3) show ?thesis by simp
  next
    case False
    with Cons.prems(2) have "x \<in> set xs" by simp
    from Cons.IH [OF *(2) this Cons.prems(3)] * show ?thesis by simp
  qed
qed

lemma asignacion_unica_Inr:
  assumes "j \<in> set js"
  shows "asignacion_unica (x_dict js ts) ts j =
         Inr (LpConstraint (''Asignacion_Unica_'' @ j) (lpSum (map (\<lambda>t. (1, Var_x j t)) ts))
                LpConstraintEQ (of_const 1))"
proof -
  have "mapE (\<lambda>t. bindE (getitem show_pair (x_dict js ts) (j, t)) (\<lambda>v. Inr (1::real, v))) ts
        = Inr (map (\<lambda>t. (1, Var_x j t)) ts)"
    by (rule mapE_Inr_map) (simp add: getitem_x_dict assms)
  then show ?thesis by (simp add: asignacion_unica_def)
qed


lemma crear_modelo_Inr:
  assumes "crear_modelo par = Inr prob"
  obtains c1 c2 c3 c4 where
    "mapE (asignacion_unica (x_dict (par_J par) (par_T par)) (par_T par)) (par_J par) = Inr c1"
    "mapE (compatibilidad (x_dict (par_J par) (par_T par))) (par_q par) = Inr c2"
    "mapE (balance_carga (x_dict (par_J par) (par_T par)) (par_p par) (par_J par)) (par_T par) = Inr c3"
    "mapE (capacidad (x_dict (par_J par) (par_T par)) (par_p par) (par_H par) (par_J par)) (par_T par) = Inr c4"
    "constraints prob = c1 @ c2 @ c3 @ c4"
    "binary_vars prob = map snd (x_dict (par_J par) (par_T par))"
    "continuous_vars prob = [(Var_L, 0)]"
  using assms unfolding crear_modelo_def Let_def by (auto simp: bindE_Inr_iff)

lemma lp_feasible_holds: "lp_feasible prob val \<Longrightarrow> c \<in> set (constraints prob) \<Longrightarrow> holds val c"
  by (simp add: lp_feasible_def list_all_iff)

lemma feasible_binary:
  assumes "crear_modelo par = Inr prob" "lp_feasible prob val"
    and "j \<in> set (par_J par)" "t \<in> set (par_T par)"
  shows "val (Var_x j t) = 0 \<or> val (Var_x j t) = 1"
proof -
  from assms(1) have "binary_vars prob = map snd (x_dict (par_J par) (par_T par))"
    by (rule crear_modelo_Inr)
  with x_dict_binary [OF assms(3,4)] have "Var_x j t \<in> set (binary_vars prob)" by simp
  with assms(2) show ?thesis by (simp add: lp_feasible_def list_all_iff)
qed

lemma feasible_unica:
  assumes "crear_modelo par = Inr prob" "lp_feasible prob val" and "j \<in> set (par_J par)"
  shows "sum_list (map (\<lambda>t. val (Var_x j t)) (par_T par)) = 1"
proof -
  let ?c = "LpConstraint (''Asignacion_Unica_'' @ j) (lpSum (map (\<lambda>t. (1, Var_x j t)) (par_T par)))
                LpConstraintEQ (of_const 1)"
  from assms(1) obtain c1 c2 c3 c4 where
    c1: "mapE (asignacion_unica (x_dict (par_J par) (par_T par)) (par_T par)) (par_J par) = Inr c1"
    and cs: "constraints prob = c1 @ c2 @ c3 @ c4"
    by (rule crear_modelo_Inr)
  have "?c \<in> set c1"
    by (rule mapE_Inr_mem [OF c1 assms(3)]) (rule asignacion_unica_Inr [OF assms(3)])
  then have "?c \<in> set (constraints prob)" using cs by simp
  then have "holds val ?c" by (rule lp_feasible_holds [OF assms(2)])
  then show ?thesis by (simp add: lpSum_def of_const_def comp_def)
qed



section \<open>Stage (a): the tables that are written\<close>

lemma asignar_jobs_Inr:
  assumes "asignar_jobs jb (x_dict J T) p val t js acc = Inr acc'"
    and "set js \<subseteq> set J" and "t \<in> set T"
    and "\<And>j. j \<in> set js \<Longrightarrow> map_of p j = Some (d j)"
  shows "map clave (fst acc') =
           map clave (fst acc) @ map (\<lambda>j. (j, t, d j)) (filter (\<lambda>j. val (Var_x j t) = 1) js)
         \<and> snd acc' = snd acc + sum_list (map d (filter (\<lambda>j. val (Var_x j t) = 1) js))"
  using assms
proof (induction js arbitrary: acc)
  case Nil
  then show ?case by simp
next
  case (Cons j js)
  have x: "getitem show_pair (x_dict J T) (j, t) = Inr (Var_x j t)"
    using Cons.prems(2,3) by (simp add: getitem_x_dict)
  have pj: "getitem id p j = Inr (d j)"
    using Cons.prems(4) by (simp add: getitem_Some)
  have sub: "set js \<subseteq> set J" using Cons.prems(2) by simp
  have d: "\<And>j'. j' \<in> set js \<Longrightarrow> map_of p j' = Some (d j')" using Cons.prems(4) by simp
  show ?case
  proof (cases "val (Var_x j t) = 1")
    case True
    with Cons.prems(1) x pj obtain skill where
      "asignar_jobs jb (x_dict J T) p val t js
         (fst acc @ [\<lparr>job_id = j, tecnico_id = t, res_duracion_horas = d j,
                      res_skill_requerida = skill\<rparr>], snd acc + d j) = Inr acc'"
      by (auto simp: bindE_Inr_iff)
    from Cons.IH [OF this sub Cons.prems(3) d] True show ?thesis
      by (simp add: clave_def)
  next
    case False
    with Cons.prems(1) x have "asignar_jobs jb (x_dict J T) p val t js acc = Inr acc'"
      by simp
    from Cons.IH [OF this sub Cons.prems(3) d] False show ?thesis by simp
  qed
qed

lemma asignar_tecnicos_Inr:
  assumes "asignar_tecnicos jb (x_dict J T) p val J ts acc = Inr acc'"
    and "set ts \<subseteq> set T"
    and "\<And>j. j \<in> set J \<Longrightarrow> map_of p j = Some (d j)"
  shows "map clave (fst acc') =
           map clave (fst acc) @
           concat (map (\<lambda>t. map (\<lambda>j. (j, t, d j)) (filter (\<lambda>j. val (Var_x j t) = 1) J)) ts)
         \<and> (\<forall>t \<in> set ts. map_of (snd acc') t = Some (carga_de d val J t))
         \<and> (\<forall>t. t \<notin> set ts \<longrightarrow> map_of (snd acc') t = map_of (snd acc) t)
         \<and> fst ` set (snd acc') = fst ` set (snd acc) \<union> set ts
         \<and> (distinct (map fst (snd acc)) \<longrightarrow> distinct (map fst (snd acc')))"
  using assms(1,2)
proof (induction ts arbitrary: acc)
  case Nil
  then show ?case by simp
next
  case (Cons t ts)
  from Cons.prems(1) obtain rc where
    rc: "asignar_jobs jb (x_dict J T) p val t J (fst acc, 0) = Inr rc" and
    rest: "asignar_tecnicos jb (x_dict J T) p val J ts (fst rc, setitem (snd acc) t (snd rc)) = Inr acc'"
    by (auto simp: bindE_Inr_iff)
  have tT: "t \<in> set T" and sub': "set ts \<subseteq> set T" using Cons.prems(2) by simp_all
  have inner: "map clave (fst rc) =
         map clave (fst acc) @ map (\<lambda>j. (j, t, d j)) (filter (\<lambda>j. val (Var_x j t) = 1) J)"
    "snd rc = carga_de d val J t"
    using asignar_jobs_Inr [OF rc subset_refl tT assms(3)] by (simp_all add: carga_de_def)
  note ih = Cons.IH [OF rest sub', simplified]
  have 1: "map clave (fst acc') =
           map clave (fst acc) @
           concat (map (\<lambda>t. map (\<lambda>j. (j, t, d j)) (filter (\<lambda>j. val (Var_x j t) = 1) J)) (t # ts))"
    using ih inner by simp
  have 2: "\<forall>t' \<in> set (t # ts). map_of (snd acc') t' = Some (carga_de d val J t')"
  proof
    fix t' assume "t' \<in> set (t # ts)"
    show "map_of (snd acc') t' = Some (carga_de d val J t')"
    proof (cases "t' \<in> set ts")
      case True
      with ih show ?thesis by simp
    next
      case False
      with \<open>t' \<in> set (t # ts)\<close> have "t' = t" by simp
      with False ih inner show ?thesis by (simp add: setitem_def update_conv')
    qed
  qed
  have 3: "\<forall>t'. t' \<notin> set (t # ts) \<longrightarrow> map_of (snd acc') t' = map_of (snd acc) t'"
    using ih by (simp add: setitem_def update_conv')
  have 4: "fst ` set (snd acc') = fst ` set (snd acc) \<union> set (t # ts)"
    using ih by (auto simp: setitem_def dom_update)
  have 5: "distinct (map fst (snd acc)) \<longrightarrow> distinct (map fst (snd acc'))"
    using ih by (simp add: setitem_def distinct_update)
  from 1 2 3 4 5 show ?case by blast
qed

lemma guardar_Inr:
  assumes "guardar tb par status val = Inr out"
  obtains res where
    "asignar_tecnicos (jobs tb) (x_dict (par_J par) (par_T par)) (par_p par) val
       (par_J par) (par_T par) ([], []) = Inr (res, tecnicos_carga_csv out)"
    "merge_tecnicos res (tecnicos tb) = Inr (assignment_results_csv out)"
    "ejecucion_log_txt out =
       \<lparr>log_status = LpStatus status, log_valor_objetivo = val Var_L,
        log_trabajos_asignados = length (rows (assignment_results_csv out))\<rparr>"
  using assms unfolding guardar_def by (auto simp: bindE_Inr_iff)

lemma filter_distinct_key:
  "distinct (map f xs) \<Longrightarrow> x \<in> set xs \<Longrightarrow> filter (\<lambda>m. f m = f x) xs = [x]"
proof (induction xs)
  case Nil
  then show ?case by simp
next
  case (Cons a xs)
  show ?case
  proof (cases "a = x")
    case True
    with Cons.prems(1) have "\<forall>m \<in> set xs. f m \<noteq> f x" by (auto simp: image_iff)
    then have "filter (\<lambda>m. f m = f x) xs = []" by (simp add: filter_empty_conv)
    with True show ?thesis by simp
  next
    case False
    with Cons.prems have "x \<in> set xs" "f a \<noteq> f x" by (auto simp: image_iff)
    with Cons show ?thesis by simp
  qed
qed

lemma clave_unir [simp]: "clave (unir tc r m) = clave r"
  by (simp add: clave_def unir_def)

lemma merge_tecnicos_clave:
  assumes "merge_tecnicos res tc = Inr df"
    and "distinct (map id_tecnico (rows tc))"
    and "\<And>r. r \<in> set res \<Longrightarrow> tecnico_id r \<in> id_tecnico ` set (rows tc)"
  shows "map clave (rows df) = map clave res"
proof -
  have chunk: "map clave (case filter (\<lambda>m. id_tecnico m = tecnico_id r) (rows tc) of
                            [] \<Rightarrow> [unir tc r None]
                          | ms \<Rightarrow> map (\<lambda>m. unir tc r (Some m)) ms) = [clave r]"
    if "r \<in> set res" for r
  proof -
    from assms(3) [OF that] obtain m where m: "m \<in> set (rows tc)" "tecnico_id r = id_tecnico m"
      by auto
    have "filter (\<lambda>m'. id_tecnico m' = tecnico_id r) (rows tc) = [m]"
      using filter_distinct_key [OF assms(2) m(1)] m(2) by simp
    then show ?thesis by simp
  qed
  from assms(1) have "rows df = concat (map (\<lambda>r.
                         (case filter (\<lambda>m. id_tecnico m = tecnico_id r) (rows tc) of
                            [] \<Rightarrow> [unir tc r None]
                          | ms \<Rightarrow> map (\<lambda>m. unir tc r (Some m)) ms)) res)"
    by (auto simp: merge_tecnicos_def split: if_splits)
  then have "map clave (rows df) = concat (map (\<lambda>r. [clave r]) res)"
    using chunk by (simp add: map_concat comp_def cong: map_cong)
  then show ?thesis by (simp add: concat_map_singleton)
qed

lemma length_filter_key:
  "distinct xs \<Longrightarrow> x \<in> set xs \<Longrightarrow>
   length (filter (\<lambda>y. P y \<and> y = x) xs) = (if P x then 1 else 0)"
  by (induction xs) (auto simp: filter_empty_conv)

lemma sum_list_indicator:
  assumes "\<And>t. t \<in> set ts \<Longrightarrow> f t = 0 \<or> f t = (1::real)"
  shows "real (sum_list (map (\<lambda>t. if f t = 1 then 1 else 0) ts)) = sum_list (map f ts)"
  using assms by (induction ts) auto


lemma par_p_defined:
  assumes "preparar_parametros tb = Inr par" and "j \<in> set (par_J par)"
  shows "map_of (par_p par) j = Some (get0 (par_p par) j)"
proof -
  have "j \<in> fst ` set (par_p par)"
    using assms by (simp add: preparar_parametros_Inr keys_dict_of image_image)
  then have "map_of (par_p par) j \<noteq> None"
    by (simp add: map_of_eq_None_iff)
  then show ?thesis by (auto simp: get0_def)
qed



lemma salida_clave:
  assumes "preparar_parametros tb = Inr par"
    and "guardar tb par status val = Inr out"
    and "distinct (map id_tecnico (rows (tecnicos tb)))"
  shows "map clave (rows (assignment_results_csv out)) =
         concat (map (\<lambda>t. map (\<lambda>j. (j, t, get0 (par_p par) j))
                             (filter (\<lambda>j. val (Var_x j t) = 1) (par_J par))) (par_T par))"
proof -
  from assms(2) obtain res where
    res: "asignar_tecnicos (jobs tb) (x_dict (par_J par) (par_T par)) (par_p par) val
       (par_J par) (par_T par) ([], []) = Inr (res, tecnicos_carga_csv out)"
    and mer: "merge_tecnicos res (tecnicos tb) = Inr (assignment_results_csv out)"
    by (rule guardar_Inr)
  have k: "map clave res =
         concat (map (\<lambda>t. map (\<lambda>j. (j, t, get0 (par_p par) j))
                             (filter (\<lambda>j. val (Var_x j t) = 1) (par_J par))) (par_T par))"
    using asignar_tecnicos_Inr [OF res subset_refl par_p_defined [OF assms(1)]] by simp
  have "tecnico_id r \<in> id_tecnico ` set (rows (tecnicos tb))" if "r \<in> set res" for r
  proof -
    from that have "clave r \<in> set (map clave res)" by simp
    then have "fst (snd (clave r)) \<in> set (par_T par)" unfolding k by auto
    then show ?thesis by (simp add: clave_def preparar_parametros_Inr(2) [OF assms(1)])
  qed
  with merge_tecnicos_clave [OF mer assms(3)] k show ?thesis by simp
qed


lemma length_filter_concat:
  "length (filter P (concat xss)) = sum_list (map (\<lambda>xs. length (filter P xs)) xss)"
  by (induction xss) simp_all

section \<open>Stage (a): the small instance, evaluated\<close>

lemma strip_simps:
  "strip ''id_job'' = ''id_job''" "strip ''duracion_horas'' = ''duracion_horas''"
  "strip ''skill_requerida'' = ''skill_requerida''" "strip ''deadline'' = ''deadline''"
  "strip ''descripcion'' = ''descripcion''" "strip ''Id_tecnico'' = ''Id_tecnico''"
  "strip ''nombre'' = ''nombre''" "strip ''capacidad_diaria_h'' = ''capacidad_diaria_h''"
  "strip ''id_tecnico'' = ''id_tecnico''" "strip ''compatible'' = ''compatible''"
  by (simp_all add: strip_def is_space_def)


lemma ej_preparar: "preparar_parametros ej_tablas = Inr ej_par"
  by (simp add: preparar_parametros_def ej_tablas_def ej_jobs_def ej_tecnicos_def
      ej_habilidades_def ej_par_def column_def cell_def dict_of_def setitem_def)

lemma ej_x_dict: "x_dict [''J1'', ''J2''] [''T1'', ''T2''] =
    [((''J1'', ''T1''), Var_x ''J1'' ''T1''), ((''J1'', ''T2''), Var_x ''J1'' ''T2''),
     ((''J2'', ''T1''), Var_x ''J2'' ''T1''), ((''J2'', ''T2''), Var_x ''J2'' ''T2'')]"
  by (simp add: x_dict_def dict_of_def setitem_def)

lemma ej_crear: "crear_modelo ej_par = Inr ej_prob"
  by (simp add: crear_modelo_def ej_par_def ej_x_dict ej_prob_def asignacion_unica_def
      compatibilidad_def balance_carga_def capacidad_def carga_expr_def getitem_def
      lpSum_def of_var_def of_const_def)

lemma ej_feasible: "lp_feasible ej_prob ej_val"
  by (simp add: lp_feasible_def ej_prob_def ej_val_def)

lemma ej_guardar: "guardar ej_tablas ej_par LpStatusOptimal ej_val = Inr ej_salida"
  by (simp add: guardar_def ej_par_def ej_x_dict ej_tablas_def ej_jobs_def ej_tecnicos_def
      ej_val_def getitem_def skill_de_def column_def setitem_def merge_tecnicos_def
      tecnicos_cols_def missing_def unir_def ej_salida_def)

lemma filas_de_job:
  assumes "preparar_parametros tb = Inr par"
    and "guardar tb par status val = Inr out"
    and "distinct (map id_tecnico (rows (tecnicos tb)))"
    and "distinct (par_J par)" and "j \<in> set (par_J par)"
  shows "length (filter (\<lambda>a. job_id a = j) (rows (assignment_results_csv out))) =
         sum_list (map (\<lambda>t. if val (Var_x j t) = 1 then 1 else 0) (par_T par))"
proof -
  let ?rows = "rows (assignment_results_csv out)"
  have "length (filter (\<lambda>a. job_id a = j) ?rows) =
        length (filter (\<lambda>k. fst k = j) (map clave ?rows))"
    by (simp add: filter_map comp_def clave_def)
  also have "\<dots> = sum_list (map (\<lambda>t. length (filter (\<lambda>j'. val (Var_x j' t) = 1 \<and> j' = j)
                         (par_J par))) (par_T par))"
    unfolding salida_clave [OF assms(1,2,3)]
    by (simp add: length_filter_concat comp_def filter_map)
  also have "\<dots> = sum_list (map (\<lambda>t. if val (Var_x j t) = 1 then 1 else 0) (par_T par))"
    by (simp add: length_filter_key [OF assms(4,5)])
  finally show ?thesis .
qed










lemma par_listado_compatible:
  assumes "preparar_parametros tb = Inr par"
    and "crear_modelo par = Inr prob"
    and "lp_feasible prob val"
    and "guardar tb par status val = Inr out"
    and "distinct (map id_tecnico (rows (tecnicos tb)))"
    and "a \<in> set (rows (assignment_results_csv out))"
    and "map_of (par_q par) (job_id a, tecnico_id a) = Some c"
  shows "1 \<le> c"
proof -
  let ?j = "job_id a" and ?t = "tecnico_id a"
  from assms(6) have "clave a \<in> set (map clave (rows (assignment_results_csv out)))" by simp
  then have jt: "?j \<in> set (par_J par)" "?t \<in> set (par_T par)" and v: "val (Var_x ?j ?t) = 1"
    unfolding salida_clave [OF assms(1,4,5)] by (auto simp: clave_def)
  let ?c = "LpConstraint (''Compatibilidad_'' @ ?j @ ''_'' @ ?t) (of_var (Var_x ?j ?t))
              LpConstraintLE (of_const c)"
  from assms(2) obtain c1 c2 c3 c4 where
    c2: "mapE (compatibilidad (x_dict (par_J par) (par_T par))) (par_q par) = Inr c2"
    and cs: "constraints prob = c1 @ c2 @ c3 @ c4"
    by (rule crear_modelo_Inr)
  have "((?j, ?t), c) \<in> set (par_q par)" using assms(7) by (rule map_of_SomeD)
  moreover have "compatibilidad (x_dict (par_J par) (par_T par)) ((?j, ?t), c) = Inr ?c"
    by (simp add: compatibilidad_def getitem_x_dict [OF jt])
  ultimately have "?c \<in> set c2" by (rule mapE_Inr_mem [OF c2])
  then have "?c \<in> set (constraints prob)" using cs by simp
  then have "holds val ?c" by (rule lp_feasible_holds [OF assms(3)])
  then show ?thesis using v by (simp add: of_var_def of_const_def)
qed

lemma aus_cargar: "cargar_datos aus_archivos = Inr aus_tablas"
  by (simp add: cargar_datos_def aus_archivos_def aus_tablas_def rename_def strip_simps
      validar_columnas_def missing_def)

lemma aus_preparar: "preparar_parametros aus_tablas = Inr aus_par"
  by (simp add: preparar_parametros_def aus_tablas_def aus_par_def column_def cell_def
      dict_of_def setitem_def)

lemma aus_x_dict: "x_dict [''J1''] [''T1'', ''T2''] =
    [((''J1'', ''T1''), Var_x ''J1'' ''T1''), ((''J1'', ''T2''), Var_x ''J1'' ''T2'')]"
  by (simp add: x_dict_def dict_of_def setitem_def)

lemma aus_crear: "crear_modelo aus_par = Inr aus_prob"
  by (simp add: crear_modelo_def aus_par_def aus_x_dict aus_prob_def asignacion_unica_def
      compatibilidad_def balance_carga_def capacidad_def carga_expr_def getitem_def
      lpSum_def of_var_def of_const_def)

lemma aus_feasible: "lp_feasible aus_prob aus_val"
  by (simp add: lp_feasible_def aus_prob_def aus_val_def)

lemma aus_forzado: "\<not> (\<exists>val. lp_feasible aus_prob val \<and> val (Var_x ''J1'' ''T2'') \<noteq> 1)"
  by (auto simp: lp_feasible_def aus_prob_def)

lemma aus_guardar: "guardar aus_tablas aus_par LpStatusOptimal aus_val = Inr aus_salida"
  by (simp add: guardar_def aus_par_def aus_x_dict aus_tablas_def
      aus_val_def getitem_def skill_de_def column_def setitem_def merge_tecnicos_def
      tecnicos_cols_def missing_def unir_def aus_salida_def)

section \<open>Stage (a): properties of a solved assignment\<close>

text \<open>
  C3.  For a feasible solved instance of stage (a) whose job and technician
  identifiers are unique, every job of the job table appears in exactly one
  row of the assignment table that is written, and no other job appears
  there; the model holds the constraint \<open>sum over t of x_jt = 1\<close> of every
  job.  A technician may appear in no row or in several: in the instance
  below the first technician has two rows and the second none.
\<close>

theorem cada_job_una_fila:
  assumes "preparar_parametros tb = Inr par"
    and "crear_modelo par = Inr prob"
    and "lp_feasible prob val"
    and "guardar tb par status val = Inr out"
    and "distinct (map id_job (rows (jobs tb)))"
    and "distinct (map id_tecnico (rows (tecnicos tb)))"
  shows "(\<forall>r \<in> set (rows (jobs tb)).
            length (filter (\<lambda>a. job_id a = id_job r) (rows (assignment_results_csv out))) = 1
          \<and> LpConstraint (''Asignacion_Unica_'' @ id_job r)
               (lpSum (map (\<lambda>t. (1, Var_x (id_job r) t)) (par_T par)))
               LpConstraintEQ (of_const 1) \<in> set (constraints prob))
       \<and> (\<forall>a \<in> set (rows (assignment_results_csv out)). job_id a \<in> id_job ` set (rows (jobs tb)))"
proof (intro conjI ballI)
  fix r assume r: "r \<in> set (rows (jobs tb))"
  have J: "par_J par = map id_job (rows (jobs tb))"
    by (rule preparar_parametros_Inr [OF assms(1)])
  have j: "id_job r \<in> set (par_J par)" using r J by simp
  have dJ: "distinct (par_J par)" using assms(5) J by simp
  have "real (length (filter (\<lambda>a. job_id a = id_job r) (rows (assignment_results_csv out)))) =
        real (sum_list (map (\<lambda>t. if val (Var_x (id_job r) t) = 1 then 1 else 0) (par_T par)))"
    by (simp only: filas_de_job [OF assms(1,4,6) dJ j])
  also have "\<dots> = sum_list (map (\<lambda>t. val (Var_x (id_job r) t)) (par_T par))"
    by (rule sum_list_indicator) (rule feasible_binary [OF assms(2,3) j])
  also have "\<dots> = 1" by (rule feasible_unica [OF assms(2,3) j])
  finally show "length (filter (\<lambda>a. job_id a = id_job r) (rows (assignment_results_csv out))) = 1"
    by simp
  from assms(2) obtain c1 c2 c3 c4 where
    c1: "mapE (asignacion_unica (x_dict (par_J par) (par_T par)) (par_T par)) (par_J par) = Inr c1"
    and cs: "constraints prob = c1 @ c2 @ c3 @ c4"
    by (rule crear_modelo_Inr)
  have "LpConstraint (''Asignacion_Unica_'' @ id_job r)
               (lpSum (map (\<lambda>t. (1, Var_x (id_job r) t)) (par_T par)))
               LpConstraintEQ (of_const 1) \<in> set c1"
    by (rule mapE_Inr_mem [OF c1 j]) (rule asignacion_unica_Inr [OF j])
  then show "LpConstraint (''Asignacion_Unica_'' @ id_job r)
               (lpSum (map (\<lambda>t. (1, Var_x (id_job r) t)) (par_T par)))
               LpConstraintEQ (of_const 1) \<in> set (constraints prob)"
    using cs by simp
next
  fix a assume "a \<in> set (rows (assignment_results_csv out))"
  then have "clave a \<in> set (map clave (rows (assignment_results_csv out)))" by simp
  then have "fst (clave a) \<in> set (par_J par)"
    unfolding salida_clave [OF assms(1,4,6)] by auto
  then show "job_id a \<in> id_job ` set (rows (jobs tb))"
    by (simp add: clave_def preparar_parametros_Inr(1) [OF assms(1)])
qed

theorem cada_job_una_fila_witness:
  "preparar_parametros ej_tablas = Inr ej_par
   \<and> crear_modelo ej_par = Inr ej_prob
   \<and> lp_feasible ej_prob ej_val
   \<and> guardar ej_tablas ej_par LpStatusOptimal ej_val = Inr ej_salida
   \<and> distinct (map id_job (rows (jobs ej_tablas)))
   \<and> distinct (map id_tecnico (rows (tecnicos ej_tablas)))
   \<and> length (filter (\<lambda>a. job_id a = ''J1'') (rows (assignment_results_csv ej_salida))) = 1
   \<and> length (filter (\<lambda>a. job_id a = ''J2'') (rows (assignment_results_csv ej_salida))) = 1
   \<and> length (filter (\<lambda>a. tecnico_id a = ''T1'') (rows (assignment_results_csv ej_salida))) = 2
   \<and> length (filter (\<lambda>a. tecnico_id a = ''T2'') (rows (assignment_results_csv ej_salida))) = 0"
proof -
  have d1: "distinct (map id_job (rows (jobs ej_tablas)))"
    by (simp add: ej_tablas_def ej_jobs_def)
  have d2: "distinct (map id_tecnico (rows (tecnicos ej_tablas)))"
    by (simp add: ej_tablas_def ej_tecnicos_def)
  note th = cada_job_una_fila [OF ej_preparar ej_crear ej_feasible ej_guardar d1 d2]
  have "length (filter (\<lambda>a. job_id a = ''J1'') (rows (assignment_results_csv ej_salida))) = 1"
    and "length (filter (\<lambda>a. job_id a = ''J2'') (rows (assignment_results_csv ej_salida))) = 1"
    using th by (simp_all add: ej_tablas_def ej_jobs_def)
  moreover have "length (filter (\<lambda>a. tecnico_id a = ''T1'') (rows (assignment_results_csv ej_salida))) = 2"
    and "length (filter (\<lambda>a. tecnico_id a = ''T2'') (rows (assignment_results_csv ej_salida))) = 0"
    by (simp_all add: ej_salida_def)
  ultimately show ?thesis
    using ej_preparar ej_crear ej_feasible ej_guardar d1 d2 by simp
qed





text \<open>
  C1.  The compatibility constraint is posted for the pairs that the
  compatibility table lists, and for no other pair.  In the instance below
  the table lists the only job with the first technician, as incompatible,
  and has no row for the second technician.  The model is built, it is
  feasible, every solution of it gives the job to the second technician, and
  the assignment table that is written does so: a pair absent from the
  table is not treated as incompatible.
\<close>

theorem par_ausente_asignado:
  "cargar_datos aus_archivos = Inr aus_tablas
   \<and> preparar_parametros aus_tablas = Inr aus_par
   \<and> map_of (par_q aus_par) (''J1'', ''T2'') = None
   \<and> crear_modelo aus_par = Inr aus_prob
   \<and> lp_feasible aus_prob aus_val
   \<and> \<not> (\<exists>val. lp_feasible aus_prob val \<and> val (Var_x ''J1'' ''T2'') \<noteq> 1)
   \<and> guardar aus_tablas aus_par LpStatusOptimal aus_val = Inr aus_salida
   \<and> map (\<lambda>a. (job_id a, tecnico_id a)) (rows (assignment_results_csv aus_salida))
       = [(''J1'', ''T2'')]"
proof -
  have "map_of (par_q aus_par) (''J1'', ''T2'') = None"
    by (simp add: aus_par_def)
  moreover have "map (\<lambda>a. (job_id a, tecnico_id a)) (rows (assignment_results_csv aus_salida))
       = [(''J1'', ''T2'')]"
    by (simp add: aus_salida_def)
  ultimately show ?thesis
    using aus_cargar aus_preparar aus_crear aus_feasible aus_forzado aus_guardar by simp
qed

section \<open>Stage (b): the model that is built\<close>

lemma vars_ok_step:
  assumes "vars_ok done st"
  shows "vars_ok (done @ [row])
           \<lparr>modelo = snd (NewIntervalVar (fst (NewIntVar 0 HORIZONTE_MINUTOS (modelo st)))
                       (py_int (duracion_minutos row))
                       (fst (NewIntVar 0 HORIZONTE_MINUTOS (snd (NewIntVar 0 HORIZONTE_MINUTOS (modelo st)))))
                       (snd (NewIntVar 0 HORIZONTE_MINUTOS (snd (NewIntVar 0 HORIZONTE_MINUTOS (modelo st)))))),
            start_vars = setitem (start_vars st) (id_job row) (fst (NewIntVar 0 HORIZONTE_MINUTOS (modelo st))),
            end_vars = setitem (end_vars st) (id_job row)
                         (fst (NewIntVar 0 HORIZONTE_MINUTOS (snd (NewIntVar 0 HORIZONTE_MINUTOS (modelo st))))),
            interval_vars = setitem (interval_vars st) (id_job row)
               (fst (NewIntervalVar (fst (NewIntVar 0 HORIZONTE_MINUTOS (modelo st)))
                       (py_int (duracion_minutos row))
                       (fst (NewIntVar 0 HORIZONTE_MINUTOS (snd (NewIntVar 0 HORIZONTE_MINUTOS (modelo st)))))
                       (snd (NewIntVar 0 HORIZONTE_MINUTOS (snd (NewIntVar 0 HORIZONTE_MINUTOS (modelo st)))))))\<rparr>"
  using assms unfolding vars_ok_def
  by (simp add: NewIntVar_def NewIntervalVar_def setitem_def dom_update update_conv' insert_commute)
     (metis less_Suc_eq less_SucI)

lemma crear_variables_inv:
  assumes "crear_variables jb rs st = Inr st'" and "vars_ok done st"
  shows "vars_ok (done @ rs) st'"
  using assms
proof (induction rs arbitrary: st "done")
  case Nil
  then show ?case by simp
next
  case (Cons row rs)
  from Cons.prems(1) obtain st1 where
    st1: "st1 = \<lparr>modelo = snd (NewIntervalVar (fst (NewIntVar 0 HORIZONTE_MINUTOS (modelo st)))
                       (py_int (duracion_minutos row))
                       (fst (NewIntVar 0 HORIZONTE_MINUTOS (snd (NewIntVar 0 HORIZONTE_MINUTOS (modelo st)))))
                       (snd (NewIntVar 0 HORIZONTE_MINUTOS (snd (NewIntVar 0 HORIZONTE_MINUTOS (modelo st)))))),
            start_vars = setitem (start_vars st) (id_job row) (fst (NewIntVar 0 HORIZONTE_MINUTOS (modelo st))),
            end_vars = setitem (end_vars st) (id_job row)
                         (fst (NewIntVar 0 HORIZONTE_MINUTOS (snd (NewIntVar 0 HORIZONTE_MINUTOS (modelo st))))),
            interval_vars = setitem (interval_vars st) (id_job row)
               (fst (NewIntervalVar (fst (NewIntVar 0 HORIZONTE_MINUTOS (modelo st)))
                       (py_int (duracion_minutos row))
                       (fst (NewIntVar 0 HORIZONTE_MINUTOS (snd (NewIntVar 0 HORIZONTE_MINUTOS (modelo st)))))
                       (snd (NewIntVar 0 HORIZONTE_MINUTOS (snd (NewIntVar 0 HORIZONTE_MINUTOS (modelo st)))))))\<rparr>"
    and rest: "crear_variables jb rs st1 = Inr st'"
    by (auto simp: bindE_Inr_iff cell_Inr_iff Let_def)
  have "vars_ok (done @ [row]) st1" unfolding st1 by (rule vars_ok_step [OF Cons.prems(2)])
  from Cons.IH [OF rest this] show ?case by simp
qed

lemma intervalos_de_append:
  "intervalos_de asg ivs (xs @ ys) t = intervalos_de asg ivs xs t @ intervalos_de asg ivs ys t"
  by (simp add: intervalos_de_def)

lemma agrupar_inv:
  assumes "agrupar asg ivs rs g = Inr g'" and "grupos_ok asg ivs done g"
  shows "grupos_ok asg ivs (done @ rs) g'"
  using assms
proof (induction rs arbitrary: g "done")
  case Nil
  then show ?case by simp
next
  case (Cons a rs)
  let ?tid = "a (columna_tecnico asg)" and ?jid = "a (columna_job asg)"
  show ?case
  proof (cases "map_of ivs ?jid")
    case None
    let ?g1 = "g\<lparr>jobs_omitidos := jobs_omitidos g + 1,
                  avisos := avisos g @ [Job_no_encontrado ?jid]\<rparr>"
    from Cons.prems(1) None have rest: "agrupar asg ivs rs ?g1 = Inr g'"
      by (auto simp: bindE_Inr_iff cell_Inr_iff)
    have "grupos_ok asg ivs (done @ [a]) ?g1"
      using Cons.prems(2) None by (simp add: grupos_ok_def intervalos_de_append intervalos_de_def)
    from Cons.IH [OF rest this] show ?thesis by simp
  next
    case (Some iv)
    let ?g1 = "g\<lparr>jobs_por_tecnico :=
                 setitem (jobs_por_tecnico g) ?tid
                   ((case map_of (jobs_por_tecnico g) ?tid of None \<Rightarrow> [] | Some l \<Rightarrow> l) @ [iv]),
               jobs_procesados := jobs_procesados g + 1\<rparr>"
    from Cons.prems(1) Some have rest: "agrupar asg ivs rs ?g1 = Inr g'"
      by (auto simp: bindE_Inr_iff cell_Inr_iff)
    have old: "(case map_of (jobs_por_tecnico g) ?tid of None \<Rightarrow> [] | Some l \<Rightarrow> l)
               = intervalos_de asg ivs done ?tid"
      using Cons.prems(2) by (simp add: grupos_ok_def)
    have new: "intervalos_de asg ivs (done @ [a]) t =
               intervalos_de asg ivs done t @ (if ?tid = t then [iv] else [])" for t
      using Some by (simp add: intervalos_de_def)
    have 1: "map_of (jobs_por_tecnico ?g1) t =
           (if intervalos_de asg ivs (done @ [a]) t = [] then None
            else Some (intervalos_de asg ivs (done @ [a]) t))" for t
    proof (cases "?tid = t")
      case True
      then show ?thesis using old by (simp add: new setitem_def update_conv')
    next
      case False
      with Cons.prems(2) show ?thesis
        by (simp add: new setitem_def update_conv' grupos_ok_def)
    qed
    have 2: "avisos ?g1 = map Job_no_encontrado
                  (filter (\<lambda>j. map_of ivs j = None) (map (\<lambda>a. a (columna_job asg)) (done @ [a])))"
      using Cons.prems(2) Some by (simp add: grupos_ok_def)
    have 3: "jobs_omitidos ?g1 = length (avisos ?g1)"
      using Cons.prems(2) by (simp add: grupos_ok_def)
    have 4: "jobs_procesados ?g1 =
       length (filter (\<lambda>j. map_of ivs j \<noteq> None) (map (\<lambda>a. a (columna_job asg)) (done @ [a])))"
      using Cons.prems(2) Some by (cases iv) (auto simp: grupos_ok_def)
    have "grupos_ok asg ivs (done @ [a]) ?g1"
      unfolding grupos_ok_def using 1 2 3 4 by blast
    from Cons.IH [OF rest this] show ?thesis by simp
  qed
qed

lemma no_overlap_por_tecnico_model:
  "cp_variables (no_overlap_por_tecnico d m) = cp_variables m \<and>
   cp_minimize (no_overlap_por_tecnico d m) = cp_minimize m \<and>
   cp_constraints (no_overlap_por_tecnico d m) =
     cp_constraints m @ map (\<lambda>ti. NoOverlap (snd ti)) (filter (\<lambda>ti. snd ti \<noteq> []) d)"
  unfolding no_overlap_por_tecnico_def
  by (induction d arbitrary: m) (simp_all add: Add_def)

lemma limite_de_Some:
  "dias_restantes (deadline row) (ahora k) \<ge> 0 \<Longrightarrow> map_of sv (id_job row) = Some s \<Longrightarrow>
   limite_de sv ahora k row = [LinearLe s (max_start (dias_restantes (deadline row) (ahora k)))]"
  by (simp add: limite_de_def)

lemma limite_de_neg: "\<not> dias_restantes (deadline row) (ahora k) \<ge> 0 \<Longrightarrow> limite_de sv ahora k row = []"
  by (simp add: limite_de_def)

lemma limite_de_D:
  assumes "c \<in> set (limite_de sv ahora k row)"
  shows "dias_restantes (deadline row) (ahora k) \<ge> 0 \<and>
         (\<exists>s. map_of sv (id_job row) = Some s \<and>
              c = LinearLe s (max_start (dias_restantes (deadline row) (ahora k))))"
proof (cases "dias_restantes (deadline row) (ahora k) \<ge> 0")
  case False
  with assms show ?thesis by (simp add: limite_de_neg)
next
  case True
  show ?thesis
  proof (cases "map_of sv (id_job row)")
    case None
    with assms True show ?thesis by (simp add: limite_de_def)
  next
    case (Some s)
    with assms True show ?thesis by (simp add: limite_de_Some)
  qed
qed

lemma restricciones_deadline_model:
  assumes "restricciones_deadline jb sv ahora k rs m = Inr m'"
  shows "m' = m\<lparr>cp_constraints := cp_constraints m @ limites sv ahora k rs\<rparr>"
  using assms
proof (induction rs arbitrary: m k)
  case Nil
  then show ?case by simp
next
  case (Cons row rs)
  show ?case
  proof (cases "dias_restantes (deadline row) (ahora k) \<ge> 0")
    case True
    with Cons.prems obtain s where s: "map_of sv (id_job row) = Some s"
      and rest: "restricciones_deadline jb sv ahora (Suc k) rs
          (Add (LinearLe s (max_start (dias_restantes (deadline row) (ahora k)))) m) = Inr m'"
      by (auto simp: bindE_Inr_iff cell_Inr_iff getitem_Inr_iff)
    from Cons.IH [OF rest] True s show ?thesis by (simp add: Add_def limite_de_Some)
  next
    case False
    with Cons.prems have "restricciones_deadline jb sv ahora (Suc k) rs m = Inr m'"
      by (auto simp: bindE_Inr_iff cell_Inr_iff)
    from Cons.IH [OF this] False show ?thesis by (simp add: limite_de_neg)
  qed
qed

lemma limites_mem:
  assumes "i < length rs" and "dias_restantes (deadline (rs ! i)) (ahora (k + i)) \<ge> 0"
    and "map_of sv (id_job (rs ! i)) = Some s"
  shows "LinearLe s (max_start (dias_restantes (deadline (rs ! i)) (ahora (k + i)))) \<in> set (limites sv ahora k rs)"
  using assms
proof (induction rs arbitrary: i k)
  case Nil
  then show ?case by simp
next
  case (Cons row rs)
  show ?case
  proof (cases i)
    case 0
    with Cons.prems show ?thesis by (simp add: limite_de_Some)
  next
    case (Suc i')
    have "LinearLe s (max_start (dias_restantes (deadline (rs ! i')) (ahora (Suc k + i')))) \<in> set (limites sv ahora (Suc k) rs)"
      by (rule Cons.IH) (use Cons.prems Suc in simp_all)
    then show ?thesis using Suc by simp
  qed
qed

lemma limites_origin:
  assumes "LinearLe s b \<in> set (limites sv ahora k rs)"
  shows "\<exists>i < length rs. dias_restantes (deadline (rs ! i)) (ahora (k + i)) \<ge> 0 \<and>
           map_of sv (id_job (rs ! i)) = Some s \<and>
           b = max_start (dias_restantes (deadline (rs ! i)) (ahora (k + i)))"
  using assms
proof (induction rs arbitrary: k)
  case Nil
  then show ?case by simp
next
  case (Cons row rs)
  show ?case
  proof (cases "LinearLe s b \<in> set (limites sv ahora (Suc k) rs)")
    case True
    from Cons.IH [OF this] obtain i where "i < length rs"
      "dias_restantes (deadline (rs ! i)) (ahora (Suc k + i)) \<ge> 0"
      "map_of sv (id_job (rs ! i)) = Some s"
      "b = max_start (dias_restantes (deadline (rs ! i)) (ahora (Suc k + i)))"
      by blast
    then have "Suc i < length (row # rs) \<and>
       dias_restantes (deadline ((row # rs) ! Suc i)) (ahora (k + Suc i)) \<ge> 0 \<and>
       map_of sv (id_job ((row # rs) ! Suc i)) = Some s \<and>
       b = max_start (dias_restantes (deadline ((row # rs) ! Suc i)) (ahora (k + Suc i)))"
      by simp
    then show ?thesis by blast
  next
    case False
    with Cons.prems have "LinearLe s b \<in> set (limite_de sv ahora k row)" by simp
    from limite_de_D [OF this]
    have "dias_restantes (deadline row) (ahora k) \<ge> 0 \<and>
       map_of sv (id_job row) = Some s \<and>
       b = max_start (dias_restantes (deadline row) (ahora k))"
      by simp
    then have "0 < length (row # rs) \<and>
       dias_restantes (deadline ((row # rs) ! 0)) (ahora (k + 0)) \<ge> 0 \<and>
       map_of sv (id_job ((row # rs) ! 0)) = Some s \<and>
       b = max_start (dias_restantes (deadline ((row # rs) ! 0)) (ahora (k + 0)))"
      by simp
    then show ?thesis by blast
  qed
qed

lemma limites_LinearLe: "c \<in> set (limites sv ahora k rs) \<Longrightarrow> \<exists>s b. c = LinearLe s b"
proof (induction rs arbitrary: k)
  case Nil
  then show ?case by simp
next
  case (Cons row rs)
  show ?case
  proof (cases "c \<in> set (limites sv ahora (Suc k) rs)")
    case True
    then show ?thesis by (rule Cons.IH)
  next
    case False
    with Cons.prems have "c \<in> set (limite_de sv ahora k row)" by simp
    from limite_de_D [OF this] show ?thesis by blast
  qed
qed

lemma convertir_duraciones_Inr:
  assumes "convertir_duraciones jb0 = Inr jb"
  shows "rows jb = rows jb0" and "''duracion_horas'' \<in> set (columns jb0)"
    and "''duracion_minutos'' \<in> set (columns jb)"
    and "set (columns jb0) \<subseteq> set (columns jb)"
    and "set (columns jb) \<subseteq> insert ''duracion_minutos'' (set (columns jb0))"
  using assms by (auto simp: convertir_duraciones_def split: if_splits)

lemma funcion_objetivo_model:
  "cp_variables (funcion_objetivo ev m) = cp_variables m @ [(0, HORIZONTE_MINUTOS)]"
  "cp_constraints (funcion_objetivo ev m) =
     cp_constraints m @ [MaxEquality (length (cp_variables m)) (map snd ev)]"
  "cp_minimize (funcion_objetivo ev m) = Some (length (cp_variables m))"
  by (simp_all add: funcion_objetivo_def Let_def NewIntVar_def Add_def)

lemma vars_ok_inicial: "vars_ok [] estado_inicial"
  by (simp add: vars_ok_def estado_inicial_def CpModel_def)

lemma grupos_ok_inicial: "grupos_ok asg ivs [] agrupacion_inicial"
  by (simp add: grupos_ok_def agrupacion_inicial_def intervalos_de_def)

lemma construir_modelo_Inr:
  assumes "construir_modelo tb ahora = Inr con"
  obtains jb st g where
    "convertir_duraciones (jobs_b tb) = Inr jb"
    "crear_variables jb (rows jb) estado_inicial = Inr st"
    "agrupar (asignaciones tb) (interval_vars st) (rows (asignaciones tb)) agrupacion_inicial = Inr g"
    "con_jobs con = jb" "con_grupos con = g"
    "start_vars (con_estado con) = start_vars st"
    "end_vars (con_estado con) = end_vars st"
    "interval_vars (con_estado con) = interval_vars st"
    "cp_variables (modelo (con_estado con)) = cp_variables (modelo st) @ [(0, HORIZONTE_MINUTOS)]"
    "cp_constraints (modelo (con_estado con)) =
       cp_constraints (modelo st)
       @ map (\<lambda>ti. NoOverlap (snd ti)) (filter (\<lambda>ti. snd ti \<noteq> []) (jobs_por_tecnico g))
       @ limites (start_vars st) ahora 0 (rows jb)
       @ [MaxEquality (length (cp_variables (modelo st))) (map snd (end_vars st))]"
proof -
  from assms obtain jb st g m where
    jb: "convertir_duraciones (jobs_b tb) = Inr jb" and
    st: "crear_variables jb (rows jb) estado_inicial = Inr st" and
    g: "agrupar (asignaciones tb) (interval_vars st) (rows (asignaciones tb)) agrupacion_inicial = Inr g" and
    m: "restricciones_deadline jb (start_vars st) ahora 0 (rows jb)
              (no_overlap_por_tecnico (jobs_por_tecnico g) (modelo st)) = Inr m" and
    con: "con = \<lparr>con_jobs = jb,
          con_estado = st\<lparr>modelo := funcion_objetivo (end_vars st) m\<rparr>,
          con_grupos = g\<rparr>"
    unfolding construir_modelo_def
    by (auto simp: bindE_Inr_iff)
  note m' = restricciones_deadline_model [OF m]
  note no = no_overlap_por_tecnico_model [of "jobs_por_tecnico g" "modelo st"]
  have v: "cp_variables (modelo (con_estado con)) = cp_variables (modelo st) @ [(0, HORIZONTE_MINUTOS)]"
    by (simp add: con funcion_objetivo_model m' no)
  have c: "cp_constraints (modelo (con_estado con)) =
       cp_constraints (modelo st)
       @ map (\<lambda>ti. NoOverlap (snd ti)) (filter (\<lambda>ti. snd ti \<noteq> []) (jobs_por_tecnico g))
       @ limites (start_vars st) ahora 0 (rows jb)
       @ [MaxEquality (length (cp_variables (modelo st))) (map snd (end_vars st))]"
    by (simp add: con funcion_objetivo_model m' no)
  show ?thesis
    by (rule that [OF jb st g _ _ _ _ _ v c]) (simp_all add: con)
qed


lemma cp_satisfies_holds:
  "cp_satisfies m val \<Longrightarrow> c \<in> set (cp_constraints m) \<Longrightarrow> cp_holds val c"
  by (simp add: cp_satisfies_def list_all_iff)

lemma intervalo_de_job:
  assumes "construir_modelo tb ahora = Inr con" and "jid \<in> id_job ` set (rows (jobs_b tb))"
  obtains s d e r where
    "map_of (start_vars (con_estado con)) jid = Some s"
    "map_of (end_vars (con_estado con)) jid = Some e"
    "map_of (interval_vars (con_estado con)) jid = Some (s, d, e)"
    "r \<in> set (rows (jobs_b tb))" "id_job r = jid" "d = py_int (duracion_minutos r)"
    "s < length (cp_variables (modelo (con_estado con)))"
    "e < length (cp_variables (modelo (con_estado con)))"
    "cp_variables (modelo (con_estado con)) ! s = (0, HORIZONTE_MINUTOS)"
    "cp_variables (modelo (con_estado con)) ! e = (0, HORIZONTE_MINUTOS)"
    "Interval s d e \<in> set (cp_constraints (modelo (con_estado con)))"
proof -
  from assms(1) obtain jb st g where
    jb: "convertir_duraciones (jobs_b tb) = Inr jb" and
    st: "crear_variables jb (rows jb) estado_inicial = Inr st" and
    "agrupar (asignaciones tb) (interval_vars st) (rows (asignaciones tb)) agrupacion_inicial = Inr g" and
    "con_jobs con = jb" and "con_grupos con = g" and
    sv: "start_vars (con_estado con) = start_vars st" and
    ev: "end_vars (con_estado con) = end_vars st" and
    iv: "interval_vars (con_estado con) = interval_vars st" and
    v: "cp_variables (modelo (con_estado con)) = cp_variables (modelo st) @ [(0, HORIZONTE_MINUTOS)]" and
    c: "cp_constraints (modelo (con_estado con)) =
       cp_constraints (modelo st)
       @ map (\<lambda>ti. NoOverlap (snd ti)) (filter (\<lambda>ti. snd ti \<noteq> []) (jobs_por_tecnico g))
       @ limites (start_vars st) ahora 0 (rows jb)
       @ [MaxEquality (length (cp_variables (modelo st))) (map snd (end_vars st))]"
    by (rule construir_modelo_Inr)
  have rows: "rows jb = rows (jobs_b tb)" by (rule convertir_duraciones_Inr [OF jb])
  have ok: "vars_ok (rows (jobs_b tb)) st"
    using crear_variables_inv [OF st vars_ok_inicial] rows by simp
  then have "jid \<in> fst ` set (interval_vars st)" using assms(2) by (simp add: vars_ok_def)
  then obtain ivl where "map_of (interval_vars st) jid = Some ivl"
    by (metis map_of_eq_None_iff not_None_eq)
  then obtain s d e where sde: "map_of (interval_vars st) jid = Some (s, d, e)"
    by (cases ivl) auto
  with ok have
    1: "map_of (start_vars st) jid = Some s" and 2: "map_of (end_vars st) jid = Some e" and
    3: "s < length (cp_variables (modelo st))" and 4: "e < length (cp_variables (modelo st))" and
    5: "Interval s d e \<in> set (cp_constraints (modelo st))" and
    6: "\<exists>r \<in> set (rows (jobs_b tb)). id_job r = jid \<and> d = py_int (duracion_minutos r)"
    unfolding vars_ok_def by blast+
  from 6 obtain r where r: "r \<in> set (rows (jobs_b tb))" "id_job r = jid"
    "d = py_int (duracion_minutos r)" by blast
  have dom: "\<forall>v \<in> set (cp_variables (modelo st)). v = (0, HORIZONTE_MINUTOS)"
    using ok by (simp add: vars_ok_def)
  have 7: "cp_variables (modelo (con_estado con)) ! s = (0, HORIZONTE_MINUTOS)"
    using dom 3 by (simp add: v nth_append)
  have 8: "cp_variables (modelo (con_estado con)) ! e = (0, HORIZONTE_MINUTOS)"
    using dom 4 by (simp add: v nth_append)
  show ?thesis
    by (rule that [OF _ _ _ r _ _ 7 8])
       (use 1 2 3 4 5 sde in \<open>simp_all add: sv ev iv v c\<close>)
qed

lemma tiempos_Inr_iff:
  "tiempos st val jid = Inr se \<longleftrightarrow>
   (\<exists>s e. map_of (start_vars st) jid = Some s \<and> map_of (end_vars st) jid = Some e \<and>
          se = (val s, val e))"
  by (auto simp: tiempos_def bindE_Inr_iff getitem_Inr_iff)

lemma horizonte: "HORIZONTE_MINUTOS = 3360"
  by (simp add: HORIZONTE_MINUTOS_def DIAS_HORIZONTE_def HORAS_POR_DIA_def)

lemma ejb_cargar: "cargar_datos_b ejb_archivos = Inr ejb_tablas"
  by (simp add: cargar_datos_b_def ejb_archivos_def)

lemma py_int_simps: "py_int 120 = 120" "py_int 180 = 180" "py_int 60 = 60"
  by (simp_all add: py_int_def)

lemma ejb_construir: "construir_modelo ejb_tablas ejb_ahora = Inr ejb_con"
  by (simp add: construir_modelo_def ejb_tablas_def convertir_duraciones_def estado_inicial_def
      agrupacion_inicial_def cell_def duracion_minutos_def py_int_simps NewIntVar_def
      NewIntervalVar_def CpModel_def setitem_def Let_def columna_tecnico_def columna_job_def
      fila_asg_def no_overlap_por_tecnico_def Add_def dias_restantes_def ejb_ahora_def
      getitem_def max_start_def HORAS_POR_DIA_def horizonte funcion_objetivo_def ejb_con_def)

lemma upt_7: "[0..<7] = [0, 1, 2, 3, 4, 5, 6]"
  by (simp add: upt_rec)

lemma ejb_satisface: "cp_satisfies (modelo (con_estado ejb_con)) ejb_val"
  by (simp add: cp_satisfies_def ejb_con_def ejb_val_def upt_7 disjuntos_def)






lemma no_overlap_pair: "no_overlap val (xs @ a # ys @ b # zs) \<Longrightarrow> disjuntos val a b"
  by (induction xs) (simp_all add: list_all_iff)

lemma disjuntos_sym: "disjuntos val a b \<Longrightarrow> disjuntos val b a"
  by (auto simp: disjuntos_def)

lemma two_elems_split:
  assumes "a \<in> set xs" and "b \<in> set xs" and "a \<noteq> b"
  shows "(\<exists>us vs ws. xs = us @ a # vs @ b # ws) \<or> (\<exists>us vs ws. xs = us @ b # vs @ a # ws)"
proof -
  from assms(1) obtain us vs where xs: "xs = us @ a # vs" by (auto dest: split_list)
  with assms(2,3) consider "b \<in> set us" | "b \<in> set vs" by auto
  then show ?thesis
  proof cases
    case 1
    then obtain u1 u2 where "us = u1 @ b # u2" by (auto dest: split_list)
    with xs have "xs = u1 @ b # u2 @ a # vs" by simp
    then show ?thesis by blast
  next
    case 2
    then obtain v1 v2 where "vs = v1 @ b # v2" by (auto dest: split_list)
    with xs have "xs = us @ a # v1 @ b # v2" by simp
    then show ?thesis by blast
  qed
qed

lemma no_overlap_posted:
  assumes "construir_modelo tb ahora = Inr con"
    and "intervalos_de (asignaciones tb) (interval_vars (con_estado con))
           (rows (asignaciones tb)) t \<noteq> []"
  shows "NoOverlap (intervalos_de (asignaciones tb) (interval_vars (con_estado con))
           (rows (asignaciones tb)) t) \<in> set (cp_constraints (modelo (con_estado con)))"
proof -
  let ?asg = "asignaciones tb"
  from assms(1) obtain jb st g where
    "convertir_duraciones (jobs_b tb) = Inr jb" and
    "crear_variables jb (rows jb) estado_inicial = Inr st" and
    g: "agrupar ?asg (interval_vars st) (rows ?asg) agrupacion_inicial = Inr g" and
    "con_jobs con = jb" and "con_grupos con = g" and
    "start_vars (con_estado con) = start_vars st" and
    "end_vars (con_estado con) = end_vars st" and
    iv: "interval_vars (con_estado con) = interval_vars st" and
    "cp_variables (modelo (con_estado con)) = cp_variables (modelo st) @ [(0, HORIZONTE_MINUTOS)]" and
    c: "cp_constraints (modelo (con_estado con)) =
       cp_constraints (modelo st)
       @ map (\<lambda>ti. NoOverlap (snd ti)) (filter (\<lambda>ti. snd ti \<noteq> []) (jobs_por_tecnico g))
       @ limites (start_vars st) ahora 0 (rows jb)
       @ [MaxEquality (length (cp_variables (modelo st))) (map snd (end_vars st))]"
    by (rule construir_modelo_Inr)
  let ?l = "intervalos_de ?asg (interval_vars st) (rows ?asg) t"
  have "grupos_ok ?asg (interval_vars st) (rows ?asg) g"
    using agrupar_inv [OF g grupos_ok_inicial] by simp
  then have "map_of (jobs_por_tecnico g) t = Some ?l"
    using assms(2) by (simp add: grupos_ok_def iv)
  then have "(t, ?l) \<in> set (jobs_por_tecnico g)" by (rule map_of_SomeD)
  then have "(t, ?l) \<in> set (filter (\<lambda>ti. snd ti \<noteq> []) (jobs_por_tecnico g))"
    using assms(2) by (simp add: iv)
  then have "NoOverlap ?l \<in> set (map (\<lambda>ti. NoOverlap (snd ti))
                 (filter (\<lambda>ti. snd ti \<noteq> []) (jobs_por_tecnico g)))"
    by force
  then show ?thesis by (simp add: c iv)
qed

lemma intervalos_de_split:
  assumes "rs = us @ a # vs @ b # ws"
    and "a (columna_tecnico asg) = t" and "b (columna_tecnico asg) = t"
    and "map_of ivs (a (columna_job asg)) = Some iva"
    and "map_of ivs (b (columna_job asg)) = Some ivb"
  shows "intervalos_de asg ivs rs t =
         intervalos_de asg ivs us t @ iva # intervalos_de asg ivs vs t @ ivb # intervalos_de asg ivs ws t"
  using assms by (simp add: intervalos_de_def)

lemma restricciones_deadline_reloj:
  assumes "restricciones_deadline jb sv ahora k rs m = Inr m'"
    and "\<And>r. r \<in> set rs \<Longrightarrow> id_job r \<in> fst ` set sv"
  shows "\<exists>m''. restricciones_deadline jb sv ahora' k' rs m2 = Inr m''"
  using assms
proof (induction rs arbitrary: k k' m m2 m')
  case Nil
  then show ?case by simp
next
  case (Cons row rs)
  from Cons.prems(1) have cols: "''id_job'' \<in> set (columns jb)" "''deadline'' \<in> set (columns jb)"
    by (auto simp: bindE_Inr_iff cell_Inr_iff)
  from Cons.prems(1) obtain m1 k1 m1' where rest: "restricciones_deadline jb sv ahora k1 rs m1 = Inr m1'"
    by (auto simp: bindE_Inr_iff cell_Inr_iff split: if_splits)
  have keys: "\<And>r. r \<in> set rs \<Longrightarrow> id_job r \<in> fst ` set sv" using Cons.prems(2) by simp
  have ih: "\<exists>m''. restricciones_deadline jb sv ahora' (Suc k') rs x = Inr m''" for x
    by (rule Cons.IH [OF rest keys])
  from Cons.prems(2) [of row] have "map_of sv (id_job row) \<noteq> None"
    by (simp add: map_of_eq_None_iff)
  then obtain s where "map_of sv (id_job row) = Some s" by auto
  then have s: "getitem id sv (id_job row) = Inr s" by (rule getitem_Some)
  show ?case using cols s ih by (simp add: cell_def)
qed

lemma construir_modelo_reloj:
  assumes "construir_modelo tb ahora = Inr con"
  shows "\<exists>con'. construir_modelo tb ahora' = Inr con'"
proof -
  from assms obtain jb st g m where
    jb: "convertir_duraciones (jobs_b tb) = Inr jb" and
    st: "crear_variables jb (rows jb) estado_inicial = Inr st" and
    g: "agrupar (asignaciones tb) (interval_vars st) (rows (asignaciones tb)) agrupacion_inicial = Inr g" and
    m: "restricciones_deadline jb (start_vars st) ahora 0 (rows jb)
              (no_overlap_por_tecnico (jobs_por_tecnico g) (modelo st)) = Inr m"
    unfolding construir_modelo_def by (auto simp: bindE_Inr_iff)
  have "vars_ok (rows jb) st" using crear_variables_inv [OF st vars_ok_inicial] by simp
  then have "\<And>r. r \<in> set (rows jb) \<Longrightarrow> id_job r \<in> fst ` set (start_vars st)"
    by (simp add: vars_ok_def)
  from restricciones_deadline_reloj [OF m this]
  obtain m'' where "restricciones_deadline jb (start_vars st) ahora' 0 (rows jb)
              (no_overlap_por_tecnico (jobs_por_tecnico g) (modelo st)) = Inr m''"
    by blast
  with jb st g show ?thesis by (simp add: construir_modelo_def)
qed

lemma limites_en_modelo:
  assumes "construir_modelo tb ahora = Inr con"
  shows "set (limites (start_vars (con_estado con)) ahora 0 (rows (jobs_b tb)))
           \<subseteq> set (cp_constraints (modelo (con_estado con)))"
    and "LinearLe s b \<in> set (cp_constraints (modelo (con_estado con))) \<Longrightarrow>
         LinearLe s b \<in> set (limites (start_vars (con_estado con)) ahora 0 (rows (jobs_b tb)))"
proof -
  from assms obtain jb st g where
    jb: "convertir_duraciones (jobs_b tb) = Inr jb" and
    st: "crear_variables jb (rows jb) estado_inicial = Inr st" and
    "agrupar (asignaciones tb) (interval_vars st) (rows (asignaciones tb)) agrupacion_inicial = Inr g" and
    "con_jobs con = jb" and "con_grupos con = g" and
    sv: "start_vars (con_estado con) = start_vars st" and
    "end_vars (con_estado con) = end_vars st" and
    "interval_vars (con_estado con) = interval_vars st" and
    "cp_variables (modelo (con_estado con)) = cp_variables (modelo st) @ [(0, HORIZONTE_MINUTOS)]" and
    c: "cp_constraints (modelo (con_estado con)) =
       cp_constraints (modelo st)
       @ map (\<lambda>ti. NoOverlap (snd ti)) (filter (\<lambda>ti. snd ti \<noteq> []) (jobs_por_tecnico g))
       @ limites (start_vars st) ahora 0 (rows jb)
       @ [MaxEquality (length (cp_variables (modelo st))) (map snd (end_vars st))]"
    by (rule construir_modelo_Inr)
  have rows: "rows jb = rows (jobs_b tb)" by (rule convertir_duraciones_Inr [OF jb])
  show "set (limites (start_vars (con_estado con)) ahora 0 (rows (jobs_b tb)))
           \<subseteq> set (cp_constraints (modelo (con_estado con)))"
    by (auto simp: c sv rows)
  assume l: "LinearLe s b \<in> set (cp_constraints (modelo (con_estado con)))"
  have "vars_ok (rows jb) st" using crear_variables_inv [OF st vars_ok_inicial] by simp
  then have "\<forall>c \<in> set (cp_constraints (modelo st)). \<exists>s d e. c = Interval s d e"
    by (simp add: vars_ok_def)
  then have "LinearLe s b \<notin> set (cp_constraints (modelo st))" by auto
  with l show "LinearLe s b \<in> set (limites (start_vars (con_estado con)) ahora 0 (rows (jobs_b tb)))"
    by (auto simp: c sv rows)
qed

section \<open>Stage (b): properties of a solved schedule\<close>




text \<open>
  C2.  In a solved schedule of stage (b), take two rows of the assignment
  table with the same technician and different jobs, both jobs being in the
  job table.  Both jobs have a start and an end, and one ends no later than
  the other starts: the intervals \<open>[start, end)\<close> are disjoint.  The
  model holds the no-overlap constraint over the intervals of that
  technician's rows.
\<close>

theorem jobs_de_un_tecnico_no_se_solapan:
  assumes "construir_modelo tb ahora = Inr con"
    and "cp_satisfies (modelo (con_estado con)) val"
    and "a \<in> set (rows (asignaciones tb))" and "b \<in> set (rows (asignaciones tb))"
    and "a (columna_tecnico (asignaciones tb)) = b (columna_tecnico (asignaciones tb))"
    and "a (columna_job (asignaciones tb)) \<noteq> b (columna_job (asignaciones tb))"
    and "a (columna_job (asignaciones tb)) \<in> id_job ` set (rows (jobs_b tb))"
    and "b (columna_job (asignaciones tb)) \<in> id_job ` set (rows (jobs_b tb))"
  shows "\<exists>sa ea sb eb.
           tiempos (con_estado con) val (a (columna_job (asignaciones tb))) = Inr (sa, ea)
         \<and> tiempos (con_estado con) val (b (columna_job (asignaciones tb))) = Inr (sb, eb)
         \<and> (ea \<le> sb \<or> eb \<le> sa)
         \<and> {sa ..< ea} \<inter> {sb ..< eb} = {}
         \<and> NoOverlap (intervalos_de (asignaciones tb) (interval_vars (con_estado con))
               (rows (asignaciones tb)) (a (columna_tecnico (asignaciones tb))))
             \<in> set (cp_constraints (modelo (con_estado con)))"
proof -
  let ?asg = "asignaciones tb"
  let ?ivs = "interval_vars (con_estado con)"
  let ?t = "a (columna_tecnico ?asg)"
  let ?ja = "a (columna_job ?asg)" and ?jb = "b (columna_job ?asg)"
  from intervalo_de_job [OF assms(1,7)] obtain s1 d1 e1 where
    a1: "map_of (start_vars (con_estado con)) ?ja = Some s1"
        "map_of (end_vars (con_estado con)) ?ja = Some e1"
        "map_of ?ivs ?ja = Some (s1, d1, e1)"
    by metis
  from intervalo_de_job [OF assms(1,8)] obtain s2 d2 e2 where
    b1: "map_of (start_vars (con_estado con)) ?jb = Some s2"
        "map_of (end_vars (con_estado con)) ?jb = Some e2"
        "map_of ?ivs ?jb = Some (s2, d2, e2)"
    by metis
  have ta: "tiempos (con_estado con) val ?ja = Inr (val s1, val e1)"
    using a1 by (simp add: tiempos_Inr_iff)
  have tb: "tiempos (con_estado con) val ?jb = Inr (val s2, val e2)"
    using b1 by (simp add: tiempos_Inr_iff)
  let ?l = "intervalos_de ?asg ?ivs (rows ?asg) ?t"
  have ab: "a \<noteq> b" using assms(6) by auto
  have dis: "disjuntos val (s1, d1, e1) (s2, d2, e2) \<and> ?l \<noteq> []"
    using two_elems_split [OF assms(3,4) ab]
  proof
    assume "\<exists>us vs ws. rows ?asg = us @ a # vs @ b # ws"
    then obtain us vs ws where "rows ?asg = us @ a # vs @ b # ws" by blast
    from intervalos_de_split [OF this refl assms(5) [symmetric] a1(3) b1(3)]
    have l: "?l = intervalos_de ?asg ?ivs us ?t @ (s1, d1, e1) #
                  intervalos_de ?asg ?ivs vs ?t @ (s2, d2, e2) # intervalos_de ?asg ?ivs ws ?t" .
    then have ne: "?l \<noteq> []" by simp
    from no_overlap_posted [OF assms(1) ne] have "no_overlap val ?l"
      using cp_satisfies_holds [OF assms(2)] by fastforce
    then show ?thesis using l ne no_overlap_pair by metis
  next
    assume "\<exists>us vs ws. rows ?asg = us @ b # vs @ a # ws"
    then obtain us vs ws where "rows ?asg = us @ b # vs @ a # ws" by blast
    from intervalos_de_split [OF this assms(5) [symmetric] refl b1(3) a1(3)]
    have l: "?l = intervalos_de ?asg ?ivs us ?t @ (s2, d2, e2) #
                  intervalos_de ?asg ?ivs vs ?t @ (s1, d1, e1) # intervalos_de ?asg ?ivs ws ?t" .
    then have ne: "?l \<noteq> []" by simp
    from no_overlap_posted [OF assms(1) ne] have "no_overlap val ?l"
      using cp_satisfies_holds [OF assms(2)] by fastforce
    then have "disjuntos val (s2, d2, e2) (s1, d1, e1)" using l no_overlap_pair by metis
    then show ?thesis using ne by (simp add: disjuntos_sym)
  qed
  then have d: "val e1 \<le> val s2 \<or> val e2 \<le> val s1" by (simp add: disjuntos_def)
  then have "{val s1 ..< val e1} \<inter> {val s2 ..< val e2} = {}" by auto
  moreover have "NoOverlap ?l \<in> set (cp_constraints (modelo (con_estado con)))"
    using no_overlap_posted [OF assms(1)] dis by blast
  ultimately show ?thesis using ta tb d by blast
qed

theorem jobs_de_un_tecnico_no_se_solapan_witness:
  "construir_modelo ejb_tablas ejb_ahora = Inr ejb_con
   \<and> cp_satisfies (modelo (con_estado ejb_con)) ejb_val
   \<and> fila_asg ''J1'' ''T1'' \<in> set (rows (asignaciones ejb_tablas))
   \<and> fila_asg ''J2'' ''T1'' \<in> set (rows (asignaciones ejb_tablas))
   \<and> tiempos (con_estado ejb_con) ejb_val ''J1'' = Inr (0, 120)
   \<and> tiempos (con_estado ejb_con) ejb_val ''J2'' = Inr (120, 300)
   \<and> {0 ..< 120} \<inter> {120 ..< (300::int)} = {}"
proof -
  have a: "fila_asg ''J1'' ''T1'' \<in> set (rows (asignaciones ejb_tablas))"
    and b: "fila_asg ''J2'' ''T1'' \<in> set (rows (asignaciones ejb_tablas))"
    by (simp_all add: ejb_tablas_def)
  have cj: "columna_job (asignaciones ejb_tablas) = ''job_id''"
    and ct: "columna_tecnico (asignaciones ejb_tablas) = ''id_tecnico''"
    by (simp_all add: columna_job_def columna_tecnico_def ejb_tablas_def)
  have t1: "tiempos (con_estado ejb_con) ejb_val ''J1'' = Inr (0, 120)"
    and t2: "tiempos (con_estado ejb_con) ejb_val ''J2'' = Inr (120, 300)"
    by (simp_all add: tiempos_def ejb_con_def ejb_val_def getitem_def)
  have h5: "fila_asg ''J1'' ''T1'' (columna_tecnico (asignaciones ejb_tablas)) =
            fila_asg ''J2'' ''T1'' (columna_tecnico (asignaciones ejb_tablas))"
    by (simp add: ct fila_asg_def)
  have h6: "fila_asg ''J1'' ''T1'' (columna_job (asignaciones ejb_tablas)) \<noteq>
            fila_asg ''J2'' ''T1'' (columna_job (asignaciones ejb_tablas))"
    by (simp add: cj fila_asg_def)
  have j1: "fila_asg ''J1'' ''T1'' (columna_job (asignaciones ejb_tablas)) = ''J1''"
    and j2: "fila_asg ''J2'' ''T1'' (columna_job (asignaciones ejb_tablas)) = ''J2''"
    by (simp_all add: cj fila_asg_def)
  have "''J1'' \<in> id_job ` set (rows (jobs_b ejb_tablas))"
    and "''J2'' \<in> id_job ` set (rows (jobs_b ejb_tablas))"
    by (simp_all add: ejb_tablas_def)
  then have h7: "fila_asg ''J1'' ''T1'' (columna_job (asignaciones ejb_tablas))
              \<in> id_job ` set (rows (jobs_b ejb_tablas))"
    and h8: "fila_asg ''J2'' ''T1'' (columna_job (asignaciones ejb_tablas))
              \<in> id_job ` set (rows (jobs_b ejb_tablas))"
    by (simp_all only: j1 j2)
  from jobs_de_un_tecnico_no_se_solapan [OF ejb_construir ejb_satisface a b h5 h6 h7 h8]
  obtain sa ea sb eb where
    "tiempos (con_estado ejb_con) ejb_val ''J1'' = Inr (sa, ea)"
    "tiempos (con_estado ejb_con) ejb_val ''J2'' = Inr (sb, eb)"
    "{sa ..< ea} \<inter> {sb ..< eb} = {}"
    unfolding j1 j2 by blast
  then have "{0 ..< 120} \<inter> {120 ..< (300::int)} = {}"
    by (simp add: t1 t2)
  with ejb_construir ejb_satisface a b t1 t2 show ?thesis by simp
qed

text \<open>
  C5.  In a solved schedule of stage (b), a job whose offset
  \<open>(deadline - now).days\<close> is not negative starts no later than
  \<open>max_start = min(offset * HORAS_POR_DIA * 60, HORIZONTE_MINUTOS)\<close>.  The
  model has no other bound of that kind: each one comes from a row whose
  offset is not negative, so a job with a negative offset gets none.  Whether
  the model is built does not depend on the clock, hence not on a deadline
  being past.
\<close>

theorem inicio_antes_del_deadline:
  assumes "construir_modelo tb ahora = Inr con"
    and "cp_satisfies (modelo (con_estado con)) val"
    and "i < length (rows (jobs_b tb))"
  shows "(0 \<le> dias_restantes (deadline (rows (jobs_b tb) ! i)) (ahora i) \<longrightarrow>
            (\<exists>s e. tiempos (con_estado con) val (id_job (rows (jobs_b tb) ! i)) = Inr (s, e)
                  \<and> s \<le> max_start (dias_restantes (deadline (rows (jobs_b tb) ! i)) (ahora i))))
       \<and> (\<forall>v b. LinearLe v b \<in> set (cp_constraints (modelo (con_estado con))) \<longrightarrow>
            (\<exists>k < length (rows (jobs_b tb)).
                0 \<le> dias_restantes (deadline (rows (jobs_b tb) ! k)) (ahora k)
              \<and> map_of (start_vars (con_estado con)) (id_job (rows (jobs_b tb) ! k)) = Some v
              \<and> b = max_start (dias_restantes (deadline (rows (jobs_b tb) ! k)) (ahora k))))
       \<and> (\<forall>ahora'. \<exists>con'. construir_modelo tb ahora' = Inr con')"
proof (intro conjI impI allI)
  let ?r = "rows (jobs_b tb) ! i"
  assume d: "0 \<le> dias_restantes (deadline ?r) (ahora i)"
  have "id_job ?r \<in> id_job ` set (rows (jobs_b tb))" using assms(3) by simp
  from intervalo_de_job [OF assms(1) this] obtain s e where
    sv: "map_of (start_vars (con_estado con)) (id_job ?r) = Some s" and
    ev: "map_of (end_vars (con_estado con)) (id_job ?r) = Some e"
    by metis
  have "LinearLe s (max_start (dias_restantes (deadline ?r) (ahora (0 + i))))
          \<in> set (limites (start_vars (con_estado con)) ahora 0 (rows (jobs_b tb)))"
    by (rule limites_mem [OF assms(3)]) (use d sv in simp_all)
  then have "LinearLe s (max_start (dias_restantes (deadline ?r) (ahora i)))
          \<in> set (cp_constraints (modelo (con_estado con)))"
    using limites_en_modelo(1) [OF assms(1)] by auto
  from cp_satisfies_holds [OF assms(2) this]
  have "val s \<le> max_start (dias_restantes (deadline ?r) (ahora i))" by simp
  moreover have "tiempos (con_estado con) val (id_job ?r) = Inr (val s, val e)"
    using sv ev by (simp add: tiempos_Inr_iff)
  ultimately show "\<exists>s e. tiempos (con_estado con) val (id_job ?r) = Inr (s, e)
                  \<and> s \<le> max_start (dias_restantes (deadline ?r) (ahora i))"
    by blast
next
  fix v b assume "LinearLe v b \<in> set (cp_constraints (modelo (con_estado con)))"
  then have "LinearLe v b \<in> set (limites (start_vars (con_estado con)) ahora 0 (rows (jobs_b tb)))"
    by (rule limites_en_modelo(2) [OF assms(1)])
  from limites_origin [OF this]
  show "\<exists>k < length (rows (jobs_b tb)).
                0 \<le> dias_restantes (deadline (rows (jobs_b tb) ! k)) (ahora k)
              \<and> map_of (start_vars (con_estado con)) (id_job (rows (jobs_b tb) ! k)) = Some v
              \<and> b = max_start (dias_restantes (deadline (rows (jobs_b tb) ! k)) (ahora k))"
    by simp
next
  fix ahora'
  show "\<exists>con'. construir_modelo tb ahora' = Inr con'"
    by (rule construir_modelo_reloj [OF assms(1)])
qed

theorem inicio_antes_del_deadline_witness:
  "construir_modelo ejb_tablas ejb_ahora = Inr ejb_con
   \<and> cp_satisfies (modelo (con_estado ejb_con)) ejb_val
   \<and> (0::nat) < length (rows (jobs_b ejb_tablas))
   \<and> dias_restantes (deadline (rows (jobs_b ejb_tablas) ! 0)) (ejb_ahora 0) = 2
   \<and> max_start 2 = min (2 * 8 * 60) (7 * 8 * 60)
   \<and> tiempos (con_estado ejb_con) ejb_val ''J1'' = Inr (0, 120)
   \<and> (0::int) \<le> max_start 2
   \<and> dias_restantes (deadline (rows (jobs_b ejb_tablas) ! 1)) (ejb_ahora 1) = - 1
   \<and> map (\<lambda>c. case c of LinearLe v b \<Rightarrow> [v] | _ \<Rightarrow> [])
        (cp_constraints (modelo (con_estado ejb_con))) = [[], [], [], [], [0], [4], []]
   \<and> map_of (start_vars (con_estado ejb_con)) ''J2'' = Some 2"
proof -
  have i: "(0::nat) < length (rows (jobs_b ejb_tablas))" by (simp add: ejb_tablas_def)
  have d0: "dias_restantes (deadline (rows (jobs_b ejb_tablas) ! 0)) (ejb_ahora 0) = 2"
    by (simp add: ejb_tablas_def dias_restantes_def ejb_ahora_def)
  have d1: "dias_restantes (deadline (rows (jobs_b ejb_tablas) ! 1)) (ejb_ahora 1) = - 1"
    by (simp add: ejb_tablas_def dias_restantes_def ejb_ahora_def)
  have r0: "id_job (rows (jobs_b ejb_tablas) ! 0) = ''J1''" by (simp add: ejb_tablas_def)
  have t1: "tiempos (con_estado ejb_con) ejb_val ''J1'' = Inr (0, 120)"
    by (simp add: tiempos_def ejb_con_def ejb_val_def getitem_def)
  have ms: "max_start 2 = min (2 * 8 * 60) (7 * 8 * 60)"
    by (simp add: max_start_def HORAS_POR_DIA_def horizonte)
  from inicio_antes_del_deadline [OF ejb_construir ejb_satisface i, THEN conjunct1]
  have "(0::int) \<le> max_start 2"
    unfolding d0 r0 by (simp add: t1)
  moreover have "map (\<lambda>c. case c of LinearLe v b \<Rightarrow> [v] | _ \<Rightarrow> [])
        (cp_constraints (modelo (con_estado ejb_con))) = [[], [], [], [], [0], [4], []]"
    and "map_of (start_vars (con_estado ejb_con)) ''J2'' = Some 2"
    by (simp_all add: ejb_con_def)
  ultimately show ?thesis
    using ejb_construir ejb_satisface i d0 d1 t1 ms by simp
qed

end
